theory Spec2Isabelle
  imports Main "HOL-Library.AList" "HOL-Library.Word"
begin

section \<open>Data model (types.ts)\<close>

text \<open>
  A \<^verbatim>\<open>Uint8Array\<close> is a list of bytes. A \<^verbatim>\<open>Date\<close> is its time value, the number of
  milliseconds since the epoch (only valid dates are modelled), and \<^verbatim>\<open>new Date()\<close> is
  the argument \<open>now\<close> that every operation reading the clock takes last. A JavaScript
  \<^verbatim>\<open>number\<close> that holds a version or a time-to-live is an \<open>int\<close>: the embedding covers
  the integers that a double represents exactly. A \<^verbatim>\<open>Map\<close> is an association list in
  insertion order: \<^verbatim>\<open>set\<close> replaces the value of a present key where it stands and
  appends an absent one (\<open>AList.update\<close>), \<^verbatim>\<open>delete\<close> removes the key
  (\<open>AList.delete\<close>), \<^verbatim>\<open>get\<close> is \<open>map_of\<close>. An optional argument or field is an
  \<open>option\<close>. Fields keep their names in the source, with a prefix where two records
  would share a field name or where the name is a keyword here (\<^verbatim>\<open>value\<close>).
\<close>

type_synonym bytes = "8 word list"
type_synonym Date = int
type_synonym Labels = "(string \<times> string) list"

datatype BackendType = FILE | KEYCHAIN | HARDWARE | REMOTE | MEMORY

text \<open>
  The exceptions that the modelled code throws. \<open>TypeError\<close> is the JavaScript runtime's
  (reading a property of \<^verbatim>\<open>undefined\<close>), the others are classes of errors.ts.
  \<open>OutsideModel\<close> is no exception of the program: it marks an execution of the file
  store that follows a property inherited from \<^verbatim>\<open>Object.prototype\<close> into a builtin
  object, where the embedding stops.
\<close>

datatype error =
    SecretNotFound
  | EncryptionError
  | InvalidWorkspace
  | AuthenticationFailed
  | TypeError
  | OutsideModel

record SecretMetadata =
  createdAt :: Date
  updatedAt :: Date
  backend :: BackendType
  version :: int
  labels :: Labels
  expiresAt :: "Date option"

record Secret =
  name :: string
  workspace :: string
  metadata :: SecretMetadata

record Limits =
  maxSecretNameLength :: int
  maxSecretValueLength :: int
  maxLabelsPerSecret :: int
  maxSecretsPerWorkspace :: int
  maxSessionTtlSeconds :: int

section \<open>Backend contract (backends/base.ts)\<close>

record StoreResult =
  created :: bool
  stored_version :: int

record RetrieveResult =
  retrieved_value :: bytes
  retrieved_version :: int

record ListResult =
  secrets :: "Secret list"
  cursor :: "string option"

section \<open>Array and string primitives of the runtime\<close>

text \<open>
  \<^verbatim>\<open>Array.prototype.sort(cmp)\<close> is a stable sort: an element goes before the first
  element that \<open>cmp\<close> does not put before it. Inserting from the right, each element in
  front of those that followed it, computes that order.
\<close>

fun insert_sorted :: "('a \<Rightarrow> 'a \<Rightarrow> int) \<Rightarrow> 'a \<Rightarrow> 'a list \<Rightarrow> 'a list" where
  "insert_sorted cmp x [] = [x]"
| "insert_sorted cmp x (y # ys) =
     (if cmp x y \<le> 0 then x # y # ys else y # insert_sorted cmp x ys)"

definition Array_sort :: "('a \<Rightarrow> 'a \<Rightarrow> int) \<Rightarrow> 'a list \<Rightarrow> 'a list" where
  "Array_sort cmp xs = foldr (insert_sorted cmp) xs []"

text \<open>
  \<^verbatim>\<open>Array.prototype.slice(start, end)\<close> on integers: a negative index counts from the
  end, both are clamped to the array, and an empty range gives the empty array.
\<close>

definition Array_slice :: "int \<Rightarrow> int \<Rightarrow> 'a list \<Rightarrow> 'a list" where
  "Array_slice start fin xs =
     (let len = int (length xs);
          k = (if start < 0 then max (len + start) 0 else min start len);
          final = (if fin < 0 then max (len + fin) 0 else min fin len)
      in take (nat (final - k)) (drop (nat k) xs))"

text \<open>\<^verbatim>\<open>String(n)\<close> of an integer: its decimal digits.\<close>

fun digits10 :: "nat \<Rightarrow> string" where
  "digits10 n =
     (if n < 10 then [char_of (48 + n)]
      else digits10 (n div 10) @ [char_of (48 + n mod 10)])"

definition String_number :: "int \<Rightarrow> string" where
  "String_number i = (if i < 0 then CHR ''-'' # digits10 (nat (- i)) else digits10 (nat i))"

text \<open>
  The label filter of \<^verbatim>\<open>listSecrets\<close>:
  \<^verbatim>\<open>Object.entries(filterLabels).every(([k, v]) => stored.metadata.labels[k] === v)\<close>.
  A label record is the list of its own entries; a member inherited from
  \<^verbatim>\<open>Object.prototype\<close> is never \<^verbatim>\<open>===\<close> to a string, so the test is on own entries.
\<close>

definition labels_match :: "Labels \<Rightarrow> Labels \<Rightarrow> bool" where
  "labels_match flt lbls = list_all (\<lambda>(k, v). map_of lbls k = Some v) flt"

text \<open>
  The start index of a page: \<^verbatim>\<open>parseInt(cursor, 10)\<close> when the cursor is a non-empty
  string and the result is not \<^verbatim>\<open>NaN\<close>, else 0. \<^verbatim>\<open>parseInt\<close> is the runtime's and is
  taken as a parameter (\<open>None\<close> for \<^verbatim>\<open>NaN\<close>).
\<close>

definition page_start :: "(string \<Rightarrow> int option) \<Rightarrow> string option \<Rightarrow> int" where
  "page_start parseInt cur =
     (case cur of
        None \<Rightarrow> 0
      | Some c \<Rightarrow> if c = [] then 0 else (case parseInt c of None \<Rightarrow> 0 | Some p \<Rightarrow> p))"

text \<open>
  Sorting by \<^verbatim>\<open>a.name.localeCompare(b.name)\<close> and cutting the page, shared by both
  stores. \<^verbatim>\<open>localeCompare\<close> is the runtime's collation and is taken as a parameter.
\<close>

definition paginate ::
  "(string \<Rightarrow> string \<Rightarrow> int) \<Rightarrow> (string \<Rightarrow> int option) \<Rightarrow> Secret list \<Rightarrow> string option \<Rightarrow> int
     \<Rightarrow> ListResult" where
  "paginate localeCompare parseInt found cur limit =
     (let sorted = Array_sort (\<lambda>a b. localeCompare (name a) (name b)) found;
          start = page_start parseInt cur;
          fin = start + limit
      in \<lparr>secrets = Array_slice start fin sorted,
          cursor = (if fin < int (length sorted) then Some (String_number fin) else None)\<rparr>)"

section \<open>Memory store (backends/memory.ts)\<close>

record StoredSecret =
  stored_value :: bytes
  stored_metadata :: SecretMetadata

type_synonym Workspace = "(string \<times> StoredSecret) list"
type_synonym MemoryBackend = "(string \<times> Workspace) list"

definition MemoryBackend_new :: MemoryBackend where
  "MemoryBackend_new = []"

definition MemoryBackend_limits :: Limits where
  "MemoryBackend_limits =
     \<lparr>maxSecretNameLength = 255, maxSecretValueLength = 65536, maxLabelsPerSecret = 64,
      maxSecretsPerWorkspace = 10000, maxSessionTtlSeconds = 86400\<rparr>"

text \<open>The test \<^verbatim>\<open>m.expiresAt && new Date() > m.expiresAt\<close>; a \<^verbatim>\<open>Date\<close> object is truthy.\<close>

definition is_expired :: "Date \<Rightarrow> SecretMetadata \<Rightarrow> bool" where
  "is_expired now m = (case expiresAt m of None \<Rightarrow> False | Some e \<Rightarrow> now > e)"

text \<open>
  \<^verbatim>\<open>store\<close> creates the workspace's inner map when it is missing, then sets the entry.
  The value is copied (\<^verbatim>\<open>new Uint8Array(value)\<close>); \<^verbatim>\<open>labels || {}\<close> is the empty
  record when no labels are passed. The method has no throwing path; its result is a sum
  because the contract's \<^verbatim>\<open>store\<close> may throw.
\<close>

definition MemoryBackend_store ::
  "MemoryBackend \<Rightarrow> string \<Rightarrow> string \<Rightarrow> bytes \<Rightarrow> Labels option \<Rightarrow> Date option \<Rightarrow> Date
     \<Rightarrow> (error + StoreResult) \<times> MemoryBackend" where
  "MemoryBackend_store s w n v lbls exp now =
     (let s1 = (case map_of s w of None \<Rightarrow> AList.update w [] s | Some _ \<Rightarrow> s);
          ws = (case map_of s1 w of None \<Rightarrow> [] | Some t \<Rightarrow> t);
          existing = map_of ws n;
          ver = (case existing of None \<Rightarrow> 1 | Some e \<Rightarrow> version (stored_metadata e) + 1);
          cAt = (case existing of None \<Rightarrow> now | Some e \<Rightarrow> createdAt (stored_metadata e));
          md = \<lparr>createdAt = cAt, updatedAt = now, backend = MEMORY, version = ver,
                labels = (case lbls of None \<Rightarrow> [] | Some l \<Rightarrow> l), expiresAt = exp\<rparr>
      in (Inr \<lparr>created = (existing = None), stored_version = ver\<rparr>,
          AList.update w (AList.update n \<lparr>stored_value = v, stored_metadata = md\<rparr> ws) s1))"

text \<open>
  \<^verbatim>\<open>retrieve\<close> throws \<^verbatim>\<open>SecretNotFoundError\<close> for a missing workspace, a missing name,
  an expired entry (which it deletes first) and a version that is not the current one.
  The state is returned in every case, since the throwing path mutates it.
\<close>

definition MemoryBackend_retrieve ::
  "MemoryBackend \<Rightarrow> string \<Rightarrow> string \<Rightarrow> int option \<Rightarrow> Date
     \<Rightarrow> (error + RetrieveResult) \<times> MemoryBackend" where
  "MemoryBackend_retrieve s w n ver now =
     (case map_of s w of
        None \<Rightarrow> (Inl SecretNotFound, s)
      | Some ws \<Rightarrow>
          (case map_of ws n of
             None \<Rightarrow> (Inl SecretNotFound, s)
           | Some secret \<Rightarrow>
               if is_expired now (stored_metadata secret)
               then (Inl SecretNotFound, AList.update w (AList.delete n ws) s)
               else if ver \<noteq> None \<and> ver \<noteq> Some (version (stored_metadata secret))
               then (Inl SecretNotFound, s)
               else (Inr \<lparr>retrieved_value = stored_value secret,
                          retrieved_version = version (stored_metadata secret)\<rparr>, s)))"

text \<open>\<^verbatim>\<open>delete\<close> zeroes the stored bytes (\<^verbatim>\<open>secret.value.fill(0)\<close>) and removes the entry.\<close>

definition MemoryBackend_delete ::
  "MemoryBackend \<Rightarrow> string \<Rightarrow> string \<Rightarrow> bool \<times> MemoryBackend" where
  "MemoryBackend_delete s w n =
     (case map_of s w of
        None \<Rightarrow> (False, s)
      | Some ws \<Rightarrow>
          (case map_of ws n of
             None \<Rightarrow> (False, s)
           | Some secret \<Rightarrow>
               (let zeroed = AList.update n (secret\<lparr>stored_value := map (\<lambda>_. 0) (stored_value secret)\<rparr>) ws
                in (True, AList.update w (AList.delete n zeroed) s))))"

definition MemoryBackend_getMetadata ::
  "MemoryBackend \<Rightarrow> string \<Rightarrow> string \<Rightarrow> Date \<Rightarrow> (error + SecretMetadata) \<times> MemoryBackend" where
  "MemoryBackend_getMetadata s w n now =
     (case map_of s w of
        None \<Rightarrow> (Inl SecretNotFound, s)
      | Some ws \<Rightarrow>
          (case map_of ws n of
             None \<Rightarrow> (Inl SecretNotFound, s)
           | Some secret \<Rightarrow>
               if is_expired now (stored_metadata secret)
               then (Inl SecretNotFound, AList.update w (AList.delete n ws) s)
               else (Inr (stored_metadata secret), s)))"

text \<open>
  \<^verbatim>\<open>listSecrets\<close> walks the workspace's map in insertion order, skips expired entries
  and entries that fail the label filter, and returns the page without values. It does
  not change the state. The limit is the caller's, or 100 (the client always passes one).
\<close>

definition MemoryBackend_listSecrets ::
  "(string \<Rightarrow> string \<Rightarrow> int) \<Rightarrow> (string \<Rightarrow> int option) \<Rightarrow> MemoryBackend \<Rightarrow> string
     \<Rightarrow> Labels option \<Rightarrow> string option \<Rightarrow> int \<Rightarrow> Date \<Rightarrow> ListResult" where
  "MemoryBackend_listSecrets localeCompare parseInt s w flt cur limit now =
     (case map_of s w of
        None \<Rightarrow> \<lparr>secrets = [], cursor = None\<rparr>
      | Some ws \<Rightarrow>
          paginate localeCompare parseInt
            (map (\<lambda>(n, stored). \<lparr>name = n, workspace = w, metadata = stored_metadata stored\<rparr>)
               (filter (\<lambda>(n, stored).
                    \<not> is_expired now (stored_metadata stored)
                    \<and> (case flt of None \<Rightarrow> True
                        | Some f \<Rightarrow> labels_match f (labels (stored_metadata stored))))
                  ws))
            cur limit)"

section \<open>Default rotate (backends/base.ts)\<close>

text \<open>
  \<^verbatim>\<open>BackendBase.rotate\<close> calls the backend's own \<^verbatim>\<open>getMetadata\<close> and \<^verbatim>\<open>store\<close>, here
  its two first arguments; \<^verbatim>\<open>store\<close> gets neither labels nor an expiry. Each call reads
  the clock once (\<open>t1\<close>, then \<open>t2\<close>). Neither store overrides it.
\<close>

definition BackendBase_rotate ::
  "('b \<Rightarrow> string \<Rightarrow> string \<Rightarrow> Date \<Rightarrow> (error + SecretMetadata) \<times> 'b)
     \<Rightarrow> ('b \<Rightarrow> string \<Rightarrow> string \<Rightarrow> bytes \<Rightarrow> Labels option \<Rightarrow> Date option \<Rightarrow> Date
           \<Rightarrow> (error + StoreResult) \<times> 'b)
     \<Rightarrow> 'b \<Rightarrow> string \<Rightarrow> string \<Rightarrow> bytes \<Rightarrow> Date \<Rightarrow> Date \<Rightarrow> (error + int) \<times> 'b" where
  "BackendBase_rotate getMetadata store s w n newValue t1 t2 =
     (case getMetadata s w n t1 of
        (Inl e, s1) \<Rightarrow> (Inl e, s1)
      | (Inr _, s1) \<Rightarrow>
          (case store s1 w n newValue None None t2 of
             (Inl e, s2) \<Rightarrow> (Inl e, s2)
           | (Inr result, s2) \<Rightarrow> (Inr (stored_version result), s2)))"

definition MemoryBackend_rotate ::
  "MemoryBackend \<Rightarrow> string \<Rightarrow> string \<Rightarrow> bytes \<Rightarrow> Date \<Rightarrow> Date \<Rightarrow> (error + int) \<times> MemoryBackend" where
  "MemoryBackend_rotate = BackendBase_rotate MemoryBackend_getMetadata MemoryBackend_store"

section \<open>Encrypted file store (backends/file.ts)\<close>

text \<open>
  The file store keeps its secrets in plain objects, \<^verbatim>\<open>Record<string, ...>\<close>, and reads
  them with \<^verbatim>\<open>obj[key]\<close>. That lookup finds an own property, or else a member that every
  plain object inherits from \<^verbatim>\<open>Object.prototype\<close>, or else \<^verbatim>\<open>undefined\<close>. The
  inherited members are functions, and \<^verbatim>\<open>Object.prototype\<close> itself under
  \<^verbatim>\<open>__proto__\<close>: all truthy, none with a \<^verbatim>\<open>metadata\<close> property. Their names are the
  runtime's, listed here from the ECMAScript standard.
\<close>

datatype 'a property = Own 'a | Inherited | Undefined

definition Object_prototype_keys :: "string list" where
  "Object_prototype_keys =
     [''constructor'', ''hasOwnProperty'', ''isPrototypeOf'', ''propertyIsEnumerable'',
      ''toLocaleString'', ''toString'', ''valueOf'', ''__proto__'',
      ''__defineGetter__'', ''__defineSetter__'', ''__lookupGetter__'', ''__lookupSetter__'']"

definition js_get :: "(string \<times> 'a) list \<Rightarrow> string \<Rightarrow> 'a property" where
  "js_get obj k =
     (case map_of obj k of
        Some v \<Rightarrow> Own v
      | None \<Rightarrow> if k \<in> set Object_prototype_keys then Inherited else Undefined)"

text \<open>
  \<^verbatim>\<open>Object.entries\<close> lists the own properties: first the keys that are array indices
  (canonical decimal numerals below \<open>2^32 - 1\<close>) in ascending numeric order, then the
  other keys in insertion order.
\<close>

definition is_digit :: "char \<Rightarrow> bool" where
  "is_digit c = (48 \<le> (of_char c :: nat) \<and> (of_char c :: nat) \<le> 57)"

definition digits_value :: "string \<Rightarrow> nat" where
  "digits_value k = foldl (\<lambda>a c. 10 * a + ((of_char c :: nat) - 48)) 0 k"

definition array_index :: "string \<Rightarrow> nat option" where
  "array_index k =
     (if k \<noteq> [] \<and> list_all is_digit k \<and> (k = ''0'' \<or> hd k \<noteq> CHR ''0'')
         \<and> length k \<le> 10 \<and> digits_value k < 4294967295
      then Some (digits_value k) else None)"

definition Object_entries :: "(string \<times> 'a) list \<Rightarrow> (string \<times> 'a) list" where
  "Object_entries obj =
     sort_key (\<lambda>(k, v). case array_index k of None \<Rightarrow> 0 | Some i \<Rightarrow> i)
       (filter (\<lambda>(k, v). array_index k \<noteq> None) obj)
     @ filter (\<lambda>(k, v). array_index k = None) obj"

text \<open>
  \<^verbatim>\<open>StoredData\<close> is the decrypted vault. A stored record holds the value as base64 text
  and the timestamps as ISO-8601 text; the embedding keeps the bytes and the instants
  that those texts encode (\<^verbatim>\<open>Buffer\<close>'s base64 and \<^verbatim>\<open>toISOString\<close> with
  \<^verbatim>\<open>new Date(text)\<close> are inverse on them), so a stored record is a \<open>StoredSecret\<close>
  whose \<open>backend\<close> is \<open>FILE\<close>.

  \<open>file_writes\<close> is the vault file as the store leaves it: each \<^verbatim>\<open>_save\<close> encrypts the
  JSON text of the whole \<open>data\<close> under a fresh IV and replaces the file; the list holds
  the snapshots written, the latest first. Writing is taken to succeed.
\<close>

record StoredData =
  data_version :: int
  workspaces :: "(string \<times> Workspace) list"

record FileBackend =
  data :: StoredData
  file_writes :: "StoredData list"

definition FileBackend_limits :: Limits where
  "FileBackend_limits =
     \<lparr>maxSecretNameLength = 255, maxSecretValueLength = 65536, maxLabelsPerSecret = 64,
      maxSecretsPerWorkspace = 10000, maxSessionTtlSeconds = 86400\<rparr>"

definition FileBackend_save :: "FileBackend \<Rightarrow> FileBackend" where
  "FileBackend_save st = st\<lparr>file_writes := data st # file_writes st\<rparr>"

text \<open>The assignment \<^verbatim>\<open>this._data.workspaces[w] = ws\<close> (and the in-place change of \<open>ws\<close>).\<close>

definition set_workspace :: "FileBackend \<Rightarrow> string \<Rightarrow> Workspace \<Rightarrow> FileBackend" where
  "set_workspace st w ws =
     st\<lparr>data := (data st)\<lparr>workspaces := AList.update w ws (workspaces (data st))\<rparr>\<rparr>"

subsection \<open>Opening the vault\<close>

text \<open>
  The cipher, the key derivation and the JSON parser are the runtime's and are
  parameters. \<open>decipher key iv authTag encrypted\<close> is AES-256-GCM decryption, \<open>None\<close>
  when it throws (a tag that does not verify, a malformed IV or tag); \<open>parse\<close> is
  \<^verbatim>\<open>JSON.parse\<close> read at type \<^verbatim>\<open>StoredData\<close>, \<open>None\<close> when it throws; \<open>fs\<close> maps a path to
  the bytes of the file there.
\<close>

type_synonym decipher = "bytes \<Rightarrow> bytes \<Rightarrow> bytes \<Rightarrow> bytes \<Rightarrow> string option"

definition FileBackend_decrypt :: "decipher \<Rightarrow> bytes \<Rightarrow> bytes \<Rightarrow> string option" where
  "FileBackend_decrypt decipher key d =
     decipher key (take 16 d) (take 16 (drop 16 d)) (drop 32 d)"

definition empty_StoredData :: StoredData where
  "empty_StoredData = \<lparr>data_version = 1, workspaces = []\<rparr>"

definition FileBackend_load ::
  "decipher \<Rightarrow> (string \<Rightarrow> StoredData option) \<Rightarrow> bytes \<Rightarrow> bytes option \<Rightarrow> error + StoredData" where
  "FileBackend_load decipher parse key file =
     (case file of
        None \<Rightarrow> Inr empty_StoredData
      | Some encrypted \<Rightarrow>
          if length encrypted = 0 then Inr empty_StoredData
          else (case FileBackend_decrypt decipher key encrypted of
                  None \<Rightarrow> Inl EncryptionError
                | Some decrypted \<Rightarrow>
                    (case parse decrypted of
                       None \<Rightarrow> Inl EncryptionError
                     | Some d \<Rightarrow> Inr d)))"

definition FileBackend_new ::
  "(string \<Rightarrow> bytes \<Rightarrow> nat \<Rightarrow> bytes) \<Rightarrow> decipher \<Rightarrow> (string \<Rightarrow> StoredData option)
     \<Rightarrow> (string \<Rightarrow> bytes option) \<Rightarrow> string \<Rightarrow> string \<Rightarrow> error + FileBackend" where
  "FileBackend_new scrypt decipher parse fs path password =
     (let salt = map of_char ''avp_file_backend_v1'';
          key = scrypt password salt 32
      in case FileBackend_load decipher parse key (fs path) of
           Inl e \<Rightarrow> Inl e
         | Inr d \<Rightarrow> Inr \<lparr>data = d, file_writes = []\<rparr>)"

text \<open>A cipher under which no input authenticates, as with a key that is not the vault's.\<close>

definition rejecting_decipher :: decipher where
  "rejecting_decipher key iv authTag encrypted = None"

subsection \<open>Operations\<close>

text \<open>
  Each operation first reads \<^verbatim>\<open>this._data.workspaces[workspace]\<close>. When that is an
  inherited member, the operation goes on inside a builtin object: \<open>OutsideModel\<close>.
  When the workspace is an own property and \<^verbatim>\<open>ws[name]\<close> is an inherited member, the
  guard \<^verbatim>\<open>!ws[name]\<close> lets it pass as an existing record, and reading
  \<^verbatim>\<open>.metadata.version\<close> or \<^verbatim>\<open>.metadata.expiresAt\<close> of it throws a \<^verbatim>\<open>TypeError\<close>.
\<close>

definition FileBackend_store_in ::
  "FileBackend \<Rightarrow> string \<Rightarrow> Workspace \<Rightarrow> string \<Rightarrow> bytes \<Rightarrow> Labels option \<Rightarrow> Date option \<Rightarrow> Date
     \<Rightarrow> (error + StoreResult) \<times> FileBackend" where
  "FileBackend_store_in st w ws n v lbls exp now =
     (case js_get ws n of
        Inherited \<Rightarrow> (Inl TypeError, st)
      | existing \<Rightarrow>
          (let ver = (case existing of Own e \<Rightarrow> version (stored_metadata e) + 1 | _ \<Rightarrow> 1);
               cAt = (case existing of Own e \<Rightarrow> createdAt (stored_metadata e) | _ \<Rightarrow> now);
               md = \<lparr>createdAt = cAt, updatedAt = now, backend = FILE, version = ver,
                     labels = (case lbls of None \<Rightarrow> [] | Some l \<Rightarrow> l), expiresAt = exp\<rparr>
           in (Inr \<lparr>created = (existing = Undefined), stored_version = ver\<rparr>,
               FileBackend_save
                 (set_workspace st w
                    (AList.update n \<lparr>stored_value = v, stored_metadata = md\<rparr> ws)))))"

definition FileBackend_store ::
  "FileBackend \<Rightarrow> string \<Rightarrow> string \<Rightarrow> bytes \<Rightarrow> Labels option \<Rightarrow> Date option \<Rightarrow> Date
     \<Rightarrow> (error + StoreResult) \<times> FileBackend" where
  "FileBackend_store st w n v lbls exp now =
     (case js_get (workspaces (data st)) w of
        Inherited \<Rightarrow> (Inl OutsideModel, st)
      | Undefined \<Rightarrow> FileBackend_store_in (set_workspace st w []) w [] n v lbls exp now
      | Own ws \<Rightarrow> FileBackend_store_in st w ws n v lbls exp now)"

definition FileBackend_retrieve ::
  "FileBackend \<Rightarrow> string \<Rightarrow> string \<Rightarrow> int option \<Rightarrow> Date
     \<Rightarrow> (error + RetrieveResult) \<times> FileBackend" where
  "FileBackend_retrieve st w n ver now =
     (case js_get (workspaces (data st)) w of
        Inherited \<Rightarrow> (Inl OutsideModel, st)
      | Undefined \<Rightarrow> (Inl SecretNotFound, st)
      | Own ws \<Rightarrow>
          (case js_get ws n of
             Undefined \<Rightarrow> (Inl SecretNotFound, st)
           | Inherited \<Rightarrow> (Inl TypeError, st)
           | Own secret \<Rightarrow>
               if is_expired now (stored_metadata secret)
               then (Inl SecretNotFound,
                     FileBackend_save (set_workspace st w (AList.delete n ws)))
               else if ver \<noteq> None \<and> ver \<noteq> Some (version (stored_metadata secret))
               then (Inl SecretNotFound, st)
               else (Inr \<lparr>retrieved_value = stored_value secret,
                          retrieved_version = version (stored_metadata secret)\<rparr>, st)))"

text \<open>
  \<^verbatim>\<open>delete\<close> overwrites the value with the base64 text of 32 zero bytes, removes the
  entry and saves. On an inherited member the overwrite is a write to a builtin object.
\<close>

definition FileBackend_delete ::
  "FileBackend \<Rightarrow> string \<Rightarrow> string \<Rightarrow> (error + bool) \<times> FileBackend" where
  "FileBackend_delete st w n =
     (case js_get (workspaces (data st)) w of
        Inherited \<Rightarrow> (Inl OutsideModel, st)
      | Undefined \<Rightarrow> (Inr False, st)
      | Own ws \<Rightarrow>
          (case js_get ws n of
             Undefined \<Rightarrow> (Inr False, st)
           | Inherited \<Rightarrow> (Inl OutsideModel, st)
           | Own secret \<Rightarrow>
               (let overwritten = AList.update n (secret\<lparr>stored_value := replicate 32 0\<rparr>) ws
                in (Inr True,
                    FileBackend_save (set_workspace st w (AList.delete n overwritten))))))"

definition FileBackend_listSecrets ::
  "(string \<Rightarrow> string \<Rightarrow> int) \<Rightarrow> (string \<Rightarrow> int option) \<Rightarrow> FileBackend \<Rightarrow> string
     \<Rightarrow> Labels option \<Rightarrow> string option \<Rightarrow> int \<Rightarrow> Date \<Rightarrow> error + ListResult" where
  "FileBackend_listSecrets localeCompare parseInt st w flt cur limit now =
     (case js_get (workspaces (data st)) w of
        Inherited \<Rightarrow> Inl OutsideModel
      | Undefined \<Rightarrow> Inr \<lparr>secrets = [], cursor = None\<rparr>
      | Own ws \<Rightarrow>
          Inr (paginate localeCompare parseInt
            (map (\<lambda>(n, stored).
                 \<lparr>name = n, workspace = w,
                  metadata =
                    \<lparr>createdAt = createdAt (stored_metadata stored),
                     updatedAt = updatedAt (stored_metadata stored),
                     backend = FILE,
                     version = version (stored_metadata stored),
                     labels = labels (stored_metadata stored),
                     expiresAt = expiresAt (stored_metadata stored)\<rparr>\<rparr>)
               (filter (\<lambda>(n, stored).
                    \<not> is_expired now (stored_metadata stored)
                    \<and> (case flt of None \<Rightarrow> True
                        | Some f \<Rightarrow> labels_match f (labels (stored_metadata stored))))
                  (Object_entries ws)))
            cur limit))"

definition FileBackend_getMetadata ::
  "FileBackend \<Rightarrow> string \<Rightarrow> string \<Rightarrow> Date \<Rightarrow> (error + SecretMetadata) \<times> FileBackend" where
  "FileBackend_getMetadata st w n now =
     (case js_get (workspaces (data st)) w of
        Inherited \<Rightarrow> (Inl OutsideModel, st)
      | Undefined \<Rightarrow> (Inl SecretNotFound, st)
      | Own ws \<Rightarrow>
          (case js_get ws n of
             Undefined \<Rightarrow> (Inl SecretNotFound, st)
           | Inherited \<Rightarrow> (Inl TypeError, st)
           | Own stored \<Rightarrow>
               if is_expired now (stored_metadata stored)
               then (Inl SecretNotFound,
                     FileBackend_save (set_workspace st w (AList.delete n ws)))
               else (Inr \<lparr>createdAt = createdAt (stored_metadata stored),
                          updatedAt = updatedAt (stored_metadata stored),
                          backend = FILE,
                          version = version (stored_metadata stored),
                          labels = labels (stored_metadata stored),
                          expiresAt = expiresAt (stored_metadata stored)\<rparr>, st)))"

definition FileBackend_rotate ::
  "FileBackend \<Rightarrow> string \<Rightarrow> string \<Rightarrow> bytes \<Rightarrow> Date \<Rightarrow> Date \<Rightarrow> (error + int) \<times> FileBackend" where
  "FileBackend_rotate = BackendBase_rotate FileBackend_getMetadata FileBackend_store"

section \<open>Client (client.ts): sessions\<close>

datatype AuthMethod = NONE | PIN | TOKEN | MTLS | OS | TERMINATE

record Session =
  sessionId :: string
  session_workspace :: string
  session_backend :: string
  agentId :: string
  session_createdAt :: Date
  session_expiresAt :: Date
  ttlSeconds :: int

record AuthenticateOptions =
  opt_workspace :: "string option"
  opt_agentId :: "string option"
  authMethod :: "AuthMethod option"
  authData :: "Labels option"
  requestedTtl :: "int option"

text \<open>
  The client holds a backend, of which \<^verbatim>\<open>authenticate\<close> reads \<^verbatim>\<open>backendId\<close> and
  \<^verbatim>\<open>limits\<close>, and the session table.
\<close>

record AVPClient =
  backendId :: string
  limits :: Limits
  sessions :: "(string \<times> Session) list"

definition DEFAULT_TTL :: int where
  "DEFAULT_TTL = 3600"

definition ascii_letter :: "char \<Rightarrow> bool" where
  "ascii_letter c =
     ((65 \<le> (of_char c :: nat) \<and> (of_char c :: nat) \<le> 90)
      \<or> (97 \<le> (of_char c :: nat) \<and> (of_char c :: nat) \<le> 122))"

text \<open>
  \<^verbatim>\<open>WORKSPACE_ID_PATTERN = /^[a-zA-Z0-9][a-zA-Z0-9_.\-/]{0,254}$/\<close>, after the test
  \<^verbatim>\<open>!workspaceId || workspaceId.length > 255\<close>.
\<close>

definition validateWorkspaceId :: "string \<Rightarrow> bool" where
  "validateWorkspaceId workspaceId =
     (if workspaceId = [] \<or> length workspaceId > 255 then False
      else (case workspaceId of
              [] \<Rightarrow> False
            | c # cs \<Rightarrow>
                (ascii_letter c \<or> is_digit c) \<and> length cs \<le> 254
                \<and> list_all (\<lambda>d. ascii_letter d \<or> is_digit d \<or> d \<in> set ''_.-/'') cs))"

text \<open>
  \<^verbatim>\<open>authenticate\<close>. The session id is \<^verbatim>\<open>avp_sess_\<close> followed by the base64url text of
  18 random bytes, the argument \<open>token\<close>. A missing option takes its default; the
  \<^verbatim>\<open>TERMINATE\<close> method needs a non-empty \<^verbatim>\<open>authData.session_id\<close>.
\<close>

definition AVPClient_authenticate ::
  "AVPClient \<Rightarrow> AuthenticateOptions \<Rightarrow> string \<Rightarrow> Date \<Rightarrow> (error + Session) \<times> AVPClient" where
  "AVPClient_authenticate c opts token now =
     (let w = (case opt_workspace opts of None \<Rightarrow> ''default'' | Some x \<Rightarrow> x);
          agent = (case opt_agentId opts of None \<Rightarrow> ''avp-ts'' | Some x \<Rightarrow> x);
          method = (case authMethod opts of None \<Rightarrow> NONE | Some m \<Rightarrow> m)
      in if \<not> validateWorkspaceId w then (Inl InvalidWorkspace, c)
         else if method = TERMINATE then
           (case Option.bind (authData opts) (\<lambda>d. map_of d ''session_id'') of
              None \<Rightarrow> (Inl AuthenticationFailed, c)
            | Some sid \<Rightarrow>
                if sid = [] then (Inl AuthenticationFailed, c)
                else (Inr \<lparr>sessionId = sid, session_workspace = w,
                           session_backend = backendId c, agentId = agent,
                           session_createdAt = now, session_expiresAt = now,
                           ttlSeconds = 0\<rparr>,
                      c\<lparr>sessions := AList.delete sid (sessions c)\<rparr>))
         else
           (let ttl = min (case requestedTtl opts of None \<Rightarrow> DEFAULT_TTL | Some t \<Rightarrow> t)
                          (maxSessionTtlSeconds (limits c));
                sid = ''avp_sess_'' @ token;
                session = \<lparr>sessionId = sid, session_workspace = w,
                           session_backend = backendId c, agentId = agent,
                           session_createdAt = now,
                           session_expiresAt = now + ttl * 1000,
                           ttlSeconds = ttl\<rparr>
            in (Inr session, c\<lparr>sessions := AList.update sid session (sessions c)\<rparr>)))"

section \<open>Observations used by the properties\<close>

text \<open>The record stored under a workspace and a name, in each store's own data.\<close>

definition stored_at :: "(string \<times> Workspace) list \<Rightarrow> string \<Rightarrow> string \<Rightarrow> StoredSecret option" where
  "stored_at s w n = Option.bind (map_of s w) (\<lambda>ws. map_of ws n)"

definition file_stored_at :: "FileBackend \<Rightarrow> string \<Rightarrow> string \<Rightarrow> StoredSecret option" where
  "file_stored_at st w n = stored_at (workspaces (data st)) w n"

section \<open>Sample states\<close>

text \<open>A workspace \<open>default\<close> holding one secret \<open>api_key\<close> at version 1, in each store.\<close>

definition sample_metadata :: "BackendType \<Rightarrow> SecretMetadata" where
  "sample_metadata b =
     \<lparr>createdAt = 10, updatedAt = 10, backend = b, version = 1, labels = [], expiresAt = None\<rparr>"

definition sample_memory :: MemoryBackend where
  "sample_memory =
     [(''default'', [(''api_key'', \<lparr>stored_value = [1], stored_metadata = sample_metadata MEMORY\<rparr>)])]"

definition sample_vault :: FileBackend where
  "sample_vault =
     \<lparr>data = \<lparr>data_version = 1,
              workspaces = [(''default'',
                 [(''api_key'', \<lparr>stored_value = [1], stored_metadata = sample_metadata FILE\<rparr>)])]\<rparr>,
      file_writes = []\<rparr>"

definition empty_vault :: FileBackend where
  "empty_vault = \<lparr>data = empty_StoredData, file_writes = []\<rparr>"

definition expiring_workspace :: "BackendType \<Rightarrow> Workspace" where
  "expiring_workspace b =
     [(''expired_key'', \<lparr>stored_value = [1],
                         stored_metadata = (sample_metadata b)\<lparr>expiresAt := Some 5\<rparr>\<rparr>),
      (''valid_key'', \<lparr>stored_value = [2], stored_metadata = sample_metadata b\<rparr>)]"

definition expiring_memory :: MemoryBackend where
  "expiring_memory = [(''default'', expiring_workspace MEMORY)]"

definition expiring_vault :: FileBackend where
  "expiring_vault =
     \<lparr>data = \<lparr>data_version = 1, workspaces = [(''default'', expiring_workspace FILE)]\<rparr>,
      file_writes = []\<rparr>"

definition labelled_memory :: MemoryBackend where
  "labelled_memory =
     [(''default'',
       [(''api_key'',
         \<lparr>stored_value = [1],
          stored_metadata = (sample_metadata MEMORY)
            \<lparr>labels := [(''env'', ''prod'')], expiresAt := Some 1000\<rparr>\<rparr>)])]"

definition labelled_vault :: FileBackend where
  "labelled_vault =
     \<lparr>data = \<lparr>data_version = 1,
              workspaces = [(''default'',
                [(''api_key'',
                  \<lparr>stored_value = [1],
                   stored_metadata = (sample_metadata FILE)
                     \<lparr>labels := [(''env'', ''prod'')], expiresAt := Some 1000\<rparr>\<rparr>)])]\<rparr>,
      file_writes = []\<rparr>"

text \<open>Stand-ins for the runtime in closed examples: a key derivation, a parser that
  rejects every text, and a file system with one file.\<close>

definition sample_scrypt :: "string \<Rightarrow> bytes \<Rightarrow> nat \<Rightarrow> bytes" where
  "sample_scrypt password salt keylen = replicate keylen 0"

definition rejecting_parse :: "string \<Rightarrow> StoredData option" where
  "rejecting_parse text = None"

definition fs_with :: "string \<Rightarrow> bytes \<Rightarrow> string \<Rightarrow> bytes option" where
  "fs_with path content p = (if p = path then Some content else None)"

text \<open>\<^verbatim>\<open>defaultLimits()\<close> of types.ts, the limits of a backend that does not override them.\<close>

definition defaultLimits :: Limits where
  "defaultLimits =
     \<lparr>maxSecretNameLength = 255, maxSecretValueLength = 65536, maxLabelsPerSecret = 64,
      maxSecretsPerWorkspace = 1000, maxSessionTtlSeconds = 86400\<rparr>"

definition memory_client :: AVPClient where
  "memory_client = \<lparr>backendId = ''memory-0'', limits = MemoryBackend_limits, sessions = []\<rparr>"

definition ttl_request :: "int option \<Rightarrow> AuthenticateOptions" where
  "ttl_request t =
     \<lparr>opt_workspace = None, opt_agentId = None, authMethod = None, authData = None,
      requestedTtl = t\<rparr>"

text \<open>A collation for closed examples: shorter names first, names of one length tied.\<close>

definition length_collation :: "string \<Rightarrow> string \<Rightarrow> int" where
  "length_collation a b = int (length a) - int (length b)"

definition unsorted_memory :: MemoryBackend where
  "unsorted_memory =
     [(''default'',
       [(''ccc'', \<lparr>stored_value = [3], stored_metadata = sample_metadata MEMORY\<rparr>),
        (''a'', \<lparr>stored_value = [1], stored_metadata = sample_metadata MEMORY\<rparr>),
        (''bb'', \<lparr>stored_value = [2], stored_metadata = sample_metadata MEMORY\<rparr>)])]"

definition unsorted_vault :: FileBackend where
  "unsorted_vault =
     \<lparr>data = \<lparr>data_version = 1,
              workspaces = [(''default'',
                [(''ccc'', \<lparr>stored_value = [3], stored_metadata = sample_metadata FILE\<rparr>),
                 (''a'', \<lparr>stored_value = [1], stored_metadata = sample_metadata FILE\<rparr>),
                 (''bb'', \<lparr>stored_value = [2], stored_metadata = sample_metadata FILE\<rparr>)])]\<rparr>,
      file_writes = []\<rparr>"



section \<open>Closed forms of the memory store's operations\<close>

lemma stored_at_update:
  "stored_at (AList.update w ws s) w' n = (if w' = w then map_of ws n else stored_at s w' n)"
  by (simp add: stored_at_def update_conv')

lemma MemoryBackend_store_eq:
  "MemoryBackend_store s w n v lbls exp now =
     (Inr \<lparr>created = (stored_at s w n = None),
           stored_version = (case stored_at s w n of
                               None \<Rightarrow> 1 | Some e \<Rightarrow> version (stored_metadata e) + 1)\<rparr>,
      AList.update w
        (AList.update n
           \<lparr>stored_value = v,
            stored_metadata =
              \<lparr>createdAt = (case stored_at s w n of
                              None \<Rightarrow> now | Some e \<Rightarrow> createdAt (stored_metadata e)),
               updatedAt = now, backend = MEMORY,
               version = (case stored_at s w n of
                            None \<Rightarrow> 1 | Some e \<Rightarrow> version (stored_metadata e) + 1),
               labels = (case lbls of None \<Rightarrow> [] | Some l \<Rightarrow> l), expiresAt = exp\<rparr>\<rparr>
           (case map_of s w of None \<Rightarrow> [] | Some t \<Rightarrow> t))
        s)"
  by (cases "map_of s w") (simp_all add: MemoryBackend_store_def stored_at_def Let_def update_conv')

lemma MemoryBackend_retrieve_eq:
  "MemoryBackend_retrieve s w n ver now =
     (case stored_at s w n of
        None \<Rightarrow> (Inl SecretNotFound, s)
      | Some secret \<Rightarrow>
          if is_expired now (stored_metadata secret)
          then (Inl SecretNotFound,
                AList.update w (AList.delete n (case map_of s w of None \<Rightarrow> [] | Some t \<Rightarrow> t)) s)
          else if ver \<noteq> None \<and> ver \<noteq> Some (version (stored_metadata secret))
          then (Inl SecretNotFound, s)
          else (Inr \<lparr>retrieved_value = stored_value secret,
                     retrieved_version = version (stored_metadata secret)\<rparr>, s))"
  by (simp add: MemoryBackend_retrieve_def stored_at_def split: option.splits)

section \<open>Store then retrieve\<close>

text \<open>
  C1. On the memory store, \<^verbatim>\<open>store(workspace, name, value)\<close>, with any labels and no
  expiry, succeeds, and \<^verbatim>\<open>retrieve(workspace, name)\<close> at any instant after it returns
  exactly the stored bytes with the version that the store reported, leaving the state
  as the store left it. When the name was absent before, the store reports
  \<open>created = True\<close> and version 1.
\<close>

theorem C1_store_then_retrieve:
  "\<exists>r s'. MemoryBackend_store s w n v lbls None t1 = (Inr r, s')
     \<and> MemoryBackend_retrieve s' w n None t2
         = (Inr \<lparr>retrieved_value = v, retrieved_version = stored_version r\<rparr>, s')
     \<and> (stored_at s w n = None \<longrightarrow> created r \<and> stored_version r = 1)"
  by (simp add: MemoryBackend_store_eq MemoryBackend_retrieve_eq stored_at_update
      update_conv' is_expired_def)

theorem C1_store_then_retrieve_witness:
  "\<exists>s'. MemoryBackend_store MemoryBackend_new ''default'' ''api_key'' [115, 101, 99] None None 1000
            = (Inr \<lparr>created = True, stored_version = 1\<rparr>, s')
      \<and> MemoryBackend_retrieve s' ''default'' ''api_key'' None 2000
            = (Inr \<lparr>retrieved_value = [115, 101, 99], retrieved_version = 1\<rparr>, s')"
  using C1_store_then_retrieve [where s = MemoryBackend_new and w = "''default''" and n = "''api_key''"
      and v = "[115, 101, 99]" and lbls = None and ?t1.0 = 1000 and ?t2.0 = 2000]
  by (auto simp: MemoryBackend_new_def stored_at_def)

section \<open>Closed forms of the file store's operations\<close>

lemma js_get_Own [simp]: "map_of obj k = Some v \<Longrightarrow> js_get obj k = Own v"
  by (simp add: js_get_def)

lemma js_get_Own_iff: "js_get obj k = Own v \<longleftrightarrow> map_of obj k = Some v"
  by (simp add: js_get_def split: option.splits)

lemma js_get_None:
  "map_of obj k = None \<Longrightarrow>
     js_get obj k = (if k \<in> set Object_prototype_keys then Inherited else Undefined)"
  by (simp add: js_get_def)

lemma workspaces_set_workspace [simp]:
  "workspaces (data (set_workspace st w ws)) = AList.update w ws (workspaces (data st))"
  by (simp add: set_workspace_def)

lemma workspaces_save [simp]: "workspaces (data (FileBackend_save st)) = workspaces (data st)"
  by (simp add: FileBackend_save_def)

lemma data_save [simp]: "data (FileBackend_save st) = data st"
  by (simp add: FileBackend_save_def)

lemma file_stored_at_save [simp]: "file_stored_at (FileBackend_save st) w n = file_stored_at st w n"
  by (simp add: file_stored_at_def)

lemma file_stored_at_set_workspace:
  "file_stored_at (set_workspace st w ws) w' n
     = (if w' = w then map_of ws n else file_stored_at st w' n)"
  by (simp add: file_stored_at_def stored_at_update)

lemma file_stored_at_SomeD:
  "file_stored_at st w n = Some e \<Longrightarrow>
     \<exists>ws. map_of (workspaces (data st)) w = Some ws \<and> map_of ws n = Some e"
  by (cases "map_of (workspaces (data st)) w") (simp_all add: file_stored_at_def stored_at_def)

lemma FileBackend_store_present:
  assumes "file_stored_at st w n = Some e"
  shows "\<exists>st'. FileBackend_store st w n v lbls exp now
           = (Inr \<lparr>created = False, stored_version = version (stored_metadata e) + 1\<rparr>, st')
         \<and> (\<exists>e'. file_stored_at st' w n = Some e'
               \<and> version (stored_metadata e') = version (stored_metadata e) + 1
               \<and> createdAt (stored_metadata e') = createdAt (stored_metadata e)
               \<and> stored_value e' = v
               \<and> labels (stored_metadata e') = (case lbls of None \<Rightarrow> [] | Some l \<Rightarrow> l)
               \<and> expiresAt (stored_metadata e') = exp)"
proof -
  from assms obtain ws where ws: "map_of (workspaces (data st)) w = Some ws" "map_of ws n = Some e"
    by (auto dest: file_stored_at_SomeD)
  then show ?thesis
    by (simp add: FileBackend_store_def FileBackend_store_in_def Let_def
        file_stored_at_set_workspace update_conv')
qed

lemma FileBackend_store_created:
  assumes "file_stored_at st w n = None"
    and "FileBackend_store st w n v lbls exp now = (Inr r, st')"
  shows "created r \<and> stored_version r = 1
         \<and> (\<exists>e'. file_stored_at st' w n = Some e' \<and> version (stored_metadata e') = 1)"
proof (cases "map_of (workspaces (data st)) w")
  case None
  with assms(2) show ?thesis
    by (auto simp: FileBackend_store_def FileBackend_store_in_def Let_def js_get_None
        file_stored_at_set_workspace update_conv' split: if_splits)
next
  case (Some ws)
  with assms(1) have "map_of ws n = None"
    by (simp add: file_stored_at_def stored_at_def)
  with Some assms(2) show ?thesis
    by (auto simp: FileBackend_store_def FileBackend_store_in_def Let_def js_get_None
        file_stored_at_set_workspace update_conv' split: if_splits)
qed

lemma FileBackend_store_fresh:
  assumes "file_stored_at st w n = None"
    and "w \<notin> set Object_prototype_keys" and "n \<notin> set Object_prototype_keys"
  shows "\<exists>st'. FileBackend_store st w n v lbls exp now
            = (Inr \<lparr>created = True, stored_version = 1\<rparr>, st')"
proof (cases "map_of (workspaces (data st)) w")
  case None
  with assms show ?thesis
    by (simp add: FileBackend_store_def FileBackend_store_in_def Let_def js_get_None)
next
  case (Some ws)
  with assms(1) have "map_of ws n = None"
    by (simp add: file_stored_at_def stored_at_def)
  with Some assms show ?thesis
    by (simp add: FileBackend_store_def FileBackend_store_in_def Let_def js_get_None)
qed

section \<open>Versions and creation time\<close>

text \<open>
  C2. In both stores, a \<^verbatim>\<open>store\<close> on a name that is present succeeds, reports
  \<open>created = False\<close> and the stored version plus one, and the record it leaves has that
  version and the \<open>createdAt\<close> of the record it replaced. A \<^verbatim>\<open>store\<close> that creates a name
  reports and leaves version 1; in the file store this is said of every store that
  succeeds on an absent name, and such a store does succeed when neither the workspace
  nor the name is a member of \<^verbatim>\<open>Object.prototype\<close>.
\<close>

theorem C2_store_versions:
  "(stored_at s w n = Some e \<longrightarrow>
      (\<exists>s' e'. MemoryBackend_store s w n v lbls exp now
                 = (Inr \<lparr>created = False, stored_version = version (stored_metadata e) + 1\<rparr>, s')
         \<and> stored_at s' w n = Some e'
         \<and> version (stored_metadata e') = version (stored_metadata e) + 1
         \<and> createdAt (stored_metadata e') = createdAt (stored_metadata e)))
   \<and> (stored_at s w n = None \<longrightarrow>
      (\<exists>s' e'. MemoryBackend_store s w n v lbls exp now
                 = (Inr \<lparr>created = True, stored_version = 1\<rparr>, s')
         \<and> stored_at s' w n = Some e' \<and> version (stored_metadata e') = 1))
   \<and> (file_stored_at st w n = Some f \<longrightarrow>
      (\<exists>st' f'. FileBackend_store st w n v lbls exp now
                 = (Inr \<lparr>created = False, stored_version = version (stored_metadata f) + 1\<rparr>, st')
         \<and> file_stored_at st' w n = Some f'
         \<and> version (stored_metadata f') = version (stored_metadata f) + 1
         \<and> createdAt (stored_metadata f') = createdAt (stored_metadata f)))
   \<and> (\<forall>r st'. file_stored_at st w n = None
         \<and> FileBackend_store st w n v lbls exp now = (Inr r, st') \<longrightarrow>
           created r \<and> stored_version r = 1
           \<and> (\<exists>f'. file_stored_at st' w n = Some f' \<and> version (stored_metadata f') = 1))
   \<and> (file_stored_at st w n = None
         \<and> w \<notin> set Object_prototype_keys \<and> n \<notin> set Object_prototype_keys \<longrightarrow>
           (\<exists>st'. FileBackend_store st w n v lbls exp now
                     = (Inr \<lparr>created = True, stored_version = 1\<rparr>, st')))"
proof -
  have m1: "stored_at s w n = Some e \<longrightarrow>
      (\<exists>s' e'. MemoryBackend_store s w n v lbls exp now
                 = (Inr \<lparr>created = False, stored_version = version (stored_metadata e) + 1\<rparr>, s')
         \<and> stored_at s' w n = Some e'
         \<and> version (stored_metadata e') = version (stored_metadata e) + 1
         \<and> createdAt (stored_metadata e') = createdAt (stored_metadata e))"
    by (simp add: MemoryBackend_store_eq stored_at_update update_conv')
  have m2: "stored_at s w n = None \<longrightarrow>
      (\<exists>s' e'. MemoryBackend_store s w n v lbls exp now
                 = (Inr \<lparr>created = True, stored_version = 1\<rparr>, s')
         \<and> stored_at s' w n = Some e' \<and> version (stored_metadata e') = 1)"
    by (simp add: MemoryBackend_store_eq stored_at_update update_conv')
  have f1: "file_stored_at st w n = Some f \<longrightarrow>
      (\<exists>st' f'. FileBackend_store st w n v lbls exp now
                 = (Inr \<lparr>created = False, stored_version = version (stored_metadata f) + 1\<rparr>, st')
         \<and> file_stored_at st' w n = Some f'
         \<and> version (stored_metadata f') = version (stored_metadata f) + 1
         \<and> createdAt (stored_metadata f') = createdAt (stored_metadata f))"
    using FileBackend_store_present [of st w n f v lbls exp now] by blast
  have f2: "\<forall>r st'. file_stored_at st w n = None
         \<and> FileBackend_store st w n v lbls exp now = (Inr r, st') \<longrightarrow>
           created r \<and> stored_version r = 1
           \<and> (\<exists>f'. file_stored_at st' w n = Some f' \<and> version (stored_metadata f') = 1)"
    using FileBackend_store_created [of st w n v lbls exp now] by blast
  have f3: "file_stored_at st w n = None
         \<and> w \<notin> set Object_prototype_keys \<and> n \<notin> set Object_prototype_keys \<longrightarrow>
           (\<exists>st'. FileBackend_store st w n v lbls exp now
                     = (Inr \<lparr>created = True, stored_version = 1\<rparr>, st'))"
    using FileBackend_store_fresh [of st w n v lbls exp now] by blast
  show ?thesis
    by (intro conjI) (fact m1 m2 f1 f2 f3)+
qed

theorem C2_store_versions_witness:
  "(\<exists>s' e'. MemoryBackend_store sample_memory ''default'' ''api_key'' [2] None None 20
               = (Inr \<lparr>created = False, stored_version = 2\<rparr>, s')
       \<and> stored_at s' ''default'' ''api_key'' = Some e'
       \<and> version (stored_metadata e') = 2 \<and> createdAt (stored_metadata e') = 10)
   \<and> (\<exists>s'. MemoryBackend_store MemoryBackend_new ''default'' ''api_key'' [2] None None 20
               = (Inr \<lparr>created = True, stored_version = 1\<rparr>, s'))
   \<and> (\<exists>st' f'. FileBackend_store sample_vault ''default'' ''api_key'' [2] None None 20
               = (Inr \<lparr>created = False, stored_version = 2\<rparr>, st')
       \<and> file_stored_at st' ''default'' ''api_key'' = Some f'
       \<and> version (stored_metadata f') = 2 \<and> createdAt (stored_metadata f') = 10)
   \<and> (\<exists>st'. FileBackend_store empty_vault ''default'' ''api_key'' [2] None None 20
               = (Inr \<lparr>created = True, stored_version = 1\<rparr>, st'))"
  using
    C2_store_versions [where s = sample_memory and st = sample_vault and w = "''default''"
      and n = "''api_key''" and v = "[2]" and lbls = None and exp = None and now = 20
      and e = "\<lparr>stored_value = [1], stored_metadata = sample_metadata MEMORY\<rparr>"
      and f = "\<lparr>stored_value = [1], stored_metadata = sample_metadata FILE\<rparr>"]
    C2_store_versions [where s = MemoryBackend_new and st = empty_vault and w = "''default''"
      and n = "''api_key''" and v = "[2]" and lbls = None and exp = None and now = 20]
  by (auto simp: stored_at_def file_stored_at_def sample_memory_def sample_vault_def
      sample_metadata_def empty_vault_def empty_StoredData_def MemoryBackend_new_def
      Object_prototype_keys_def)

section \<open>Sorting and paging: the elements of a page\<close>

lemma set_insert_sorted: "set (insert_sorted cmp x xs) = insert x (set xs)"
  by (induction xs) auto

lemma set_Array_sort: "set (Array_sort cmp xs) = set xs"
  by (induction xs) (simp_all add: Array_sort_def set_insert_sorted)

lemma set_Array_slice: "set (Array_slice a b xs) \<subseteq> set xs"
proof -
  have "set (take i (drop j xs)) \<subseteq> set xs" for i j
    using set_take_subset [of i "drop j xs"] set_drop_subset [of j xs] by blast
  then show ?thesis
    by (simp add: Array_slice_def Let_def)
qed

lemma set_paginate: "set (secrets (paginate lc pI found cur lim)) \<subseteq> set found"
  using set_Array_slice [of _ _ "Array_sort (\<lambda>a b. lc (name a) (name b)) found"]
  by (simp add: paginate_def Let_def set_Array_sort)

lemma set_Object_entries: "set (Object_entries obj) = set obj"
  by (auto simp: Object_entries_def)

section \<open>Closed forms, continued\<close>

lemma MemoryBackend_getMetadata_eq:
  "MemoryBackend_getMetadata s w n now =
     (case stored_at s w n of
        None \<Rightarrow> (Inl SecretNotFound, s)
      | Some secret \<Rightarrow>
          if is_expired now (stored_metadata secret)
          then (Inl SecretNotFound,
                AList.update w (AList.delete n (case map_of s w of None \<Rightarrow> [] | Some t \<Rightarrow> t)) s)
          else (Inr (stored_metadata secret), s))"
  by (simp add: MemoryBackend_getMetadata_def stored_at_def split: option.splits)

lemma is_expired_past: "expiresAt m = Some x \<Longrightarrow> x < now \<Longrightarrow> is_expired now m"
  by (simp add: is_expired_def)

lemma MemoryBackend_listSecrets_elem:
  assumes "y \<in> set (secrets (MemoryBackend_listSecrets lc pI s w flt cur lim now))"
  shows "\<exists>ws stored. map_of s w = Some ws \<and> (name y, stored) \<in> set ws
           \<and> metadata y = stored_metadata stored \<and> workspace y = w
           \<and> \<not> is_expired now (stored_metadata stored)"
proof (cases "map_of s w")
  case None
  with assms show ?thesis by (simp add: MemoryBackend_listSecrets_def)
next
  case (Some ws)
  with assms set_paginate show ?thesis
    by (fastforce simp: MemoryBackend_listSecrets_def)
qed

lemma FileBackend_listSecrets_elem:
  assumes "FileBackend_listSecrets lc pI st w flt cur lim now = Inr r"
    and "y \<in> set (secrets r)"
  shows "\<exists>ws stored. map_of (workspaces (data st)) w = Some ws \<and> (name y, stored) \<in> set ws
           \<and> expiresAt (metadata y) = expiresAt (stored_metadata stored) \<and> workspace y = w
           \<and> version (metadata y) = version (stored_metadata stored)
           \<and> \<not> is_expired now (stored_metadata stored)"
proof (cases "map_of (workspaces (data st)) w")
  case None
  with assms show ?thesis
    by (auto simp: FileBackend_listSecrets_def js_get_None split: if_splits)
next
  case (Some ws)
  with assms have "y \<in> set (secrets (paginate lc pI
            (map (\<lambda>(n, stored).
                 \<lparr>name = n, workspace = w,
                  metadata =
                    \<lparr>createdAt = createdAt (stored_metadata stored),
                     updatedAt = updatedAt (stored_metadata stored),
                     backend = FILE,
                     version = version (stored_metadata stored),
                     labels = labels (stored_metadata stored),
                     expiresAt = expiresAt (stored_metadata stored)\<rparr>\<rparr>)
               (filter (\<lambda>(n, stored).
                    \<not> is_expired now (stored_metadata stored)
                    \<and> (case flt of None \<Rightarrow> True
                        | Some f \<Rightarrow> labels_match f (labels (stored_metadata stored))))
                  (Object_entries ws)))
            cur lim))"
    by (auto simp: FileBackend_listSecrets_def)
  with set_paginate Some show ?thesis
    by (fastforce simp: set_Object_entries)
qed

lemma FileBackend_retrieve_present:
  assumes "map_of (workspaces (data st)) w = Some ws" and "map_of ws n = Some secret"
  shows "FileBackend_retrieve st w n ver now =
     (if is_expired now (stored_metadata secret)
      then (Inl SecretNotFound, FileBackend_save (set_workspace st w (AList.delete n ws)))
      else if ver \<noteq> None \<and> ver \<noteq> Some (version (stored_metadata secret))
      then (Inl SecretNotFound, st)
      else (Inr \<lparr>retrieved_value = stored_value secret,
                 retrieved_version = version (stored_metadata secret)\<rparr>, st))"
  using assms by (simp add: FileBackend_retrieve_def)

lemma FileBackend_getMetadata_present:
  assumes "map_of (workspaces (data st)) w = Some ws" and "map_of ws n = Some stored"
  shows "FileBackend_getMetadata st w n now =
     (if is_expired now (stored_metadata stored)
      then (Inl SecretNotFound, FileBackend_save (set_workspace st w (AList.delete n ws)))
      else (Inr \<lparr>createdAt = createdAt (stored_metadata stored),
                 updatedAt = updatedAt (stored_metadata stored),
                 backend = FILE,
                 version = version (stored_metadata stored),
                 labels = labels (stored_metadata stored),
                 expiresAt = expiresAt (stored_metadata stored)\<rparr>, st))"
  using assms by (simp add: FileBackend_getMetadata_def)

lemma file_writes_save_set [simp]:
  "file_writes (FileBackend_save (set_workspace st w ws))
     = data (set_workspace st w ws) # file_writes st"
  by (simp add: FileBackend_save_def set_workspace_def)

lemma stored_at_SomeD:
  "stored_at s w n = Some e \<Longrightarrow> \<exists>ws. map_of s w = Some ws \<and> map_of ws n = Some e"
  by (cases "map_of s w") (simp_all add: stored_at_def)

lemma MemoryBackend_expired_access:
  assumes "stored_at s w n = Some e" and "is_expired now (stored_metadata e)"
  shows "fst (MemoryBackend_retrieve s w n ver now) = Inl SecretNotFound"
    and "stored_at (snd (MemoryBackend_retrieve s w n ver now)) w n = None"
    and "fst (MemoryBackend_getMetadata s w n now) = Inl SecretNotFound"
    and "stored_at (snd (MemoryBackend_getMetadata s w n now)) w n = None"
  using assms
  by (simp_all add: MemoryBackend_retrieve_eq MemoryBackend_getMetadata_eq stored_at_update
      delete_conv')

lemma FileBackend_expired_access:
  assumes "file_stored_at st w n = Some f" and "is_expired now (stored_metadata f)"
  shows "fst (FileBackend_retrieve st w n ver now) = Inl SecretNotFound"
    and "file_stored_at (snd (FileBackend_retrieve st w n ver now)) w n = None"
    and "file_writes (snd (FileBackend_retrieve st w n ver now))
           = data (snd (FileBackend_retrieve st w n ver now)) # file_writes st"
    and "fst (FileBackend_getMetadata st w n now) = Inl SecretNotFound"
    and "file_stored_at (snd (FileBackend_getMetadata st w n now)) w n = None"
    and "file_writes (snd (FileBackend_getMetadata st w n now))
           = data (snd (FileBackend_getMetadata st w n now)) # file_writes st"
proof -
  from assms(1) obtain ws where ws: "map_of (workspaces (data st)) w = Some ws" "map_of ws n = Some f"
    by (auto dest: file_stored_at_SomeD)
  show "fst (FileBackend_retrieve st w n ver now) = Inl SecretNotFound"
    and "file_stored_at (snd (FileBackend_retrieve st w n ver now)) w n = None"
    and "file_writes (snd (FileBackend_retrieve st w n ver now))
           = data (snd (FileBackend_retrieve st w n ver now)) # file_writes st"
    and "fst (FileBackend_getMetadata st w n now) = Inl SecretNotFound"
    and "file_stored_at (snd (FileBackend_getMetadata st w n now)) w n = None"
    and "file_writes (snd (FileBackend_getMetadata st w n now))
           = data (snd (FileBackend_getMetadata st w n now)) # file_writes st"
    using assms(2)
    by (simp_all add: FileBackend_retrieve_present [OF ws] FileBackend_getMetadata_present [OF ws]
        file_stored_at_set_workspace delete_conv')
qed

lemma MemoryBackend_list_skips_expired:
  assumes "map_of s w = Some ws" and "distinct (map fst ws)" and "map_of ws n = Some e"
    and "is_expired now (stored_metadata e)"
  shows "n \<notin> name ` set (secrets (MemoryBackend_listSecrets lc pI s w flt cur lim now))"
proof
  assume "n \<in> name ` set (secrets (MemoryBackend_listSecrets lc pI s w flt cur lim now))"
  then obtain y where y: "y \<in> set (secrets (MemoryBackend_listSecrets lc pI s w flt cur lim now))"
    and n: "name y = n" by auto
  from MemoryBackend_listSecrets_elem [OF y] assms(1) n
  obtain stored where "(n, stored) \<in> set ws" "\<not> is_expired now (stored_metadata stored)"
    by auto
  with assms(2,3) have "stored = e" by simp
  with assms(4) \<open>\<not> is_expired now (stored_metadata stored)\<close> show False by simp
qed

lemma FileBackend_list_skips_expired:
  assumes "map_of (workspaces (data st)) w = Some ws" and "distinct (map fst ws)"
    and "map_of ws n = Some f" and "is_expired now (stored_metadata f)"
  shows "\<exists>r. FileBackend_listSecrets lc pI st w flt cur lim now = Inr r
           \<and> n \<notin> name ` set (secrets r)"
proof -
  from assms(1) obtain r where r: "FileBackend_listSecrets lc pI st w flt cur lim now = Inr r"
    by (simp add: FileBackend_listSecrets_def)
  have "n \<notin> name ` set (secrets r)"
  proof
    assume "n \<in> name ` set (secrets r)"
    then obtain y where y: "y \<in> set (secrets r)" and n: "name y = n" by auto
    from FileBackend_listSecrets_elem [OF r y] assms(1) n
    obtain stored where "(n, stored) \<in> set ws" "\<not> is_expired now (stored_metadata stored)"
      by auto
    with assms(2,3) have "stored = f" by simp
    with assms(4) \<open>\<not> is_expired now (stored_metadata stored)\<close> show False by simp
  qed
  with r show ?thesis by blast
qed

lemma MemoryBackend_list_not_expired:
  "y \<in> set (secrets (MemoryBackend_listSecrets lc pI s w flt cur lim now))
     \<Longrightarrow> \<not> is_expired now (metadata y)"
  by (auto dest: MemoryBackend_listSecrets_elem)

lemma FileBackend_list_not_expired:
  "FileBackend_listSecrets lc pI st w flt cur lim now = Inr r \<Longrightarrow> y \<in> set (secrets r)
     \<Longrightarrow> \<not> is_expired now (metadata y)"
  by (auto dest!: FileBackend_listSecrets_elem simp: is_expired_def)

section \<open>Lazy expiration\<close>

text \<open>
  C3. Let a secret be stored with an \<open>expiresAt\<close> strictly before the instant \<open>now\<close> of
  the access. In both stores \<^verbatim>\<open>retrieve\<close> (with or without a version) and
  \<^verbatim>\<open>getMetadata\<close> fail with \<open>SecretNotFound\<close> and leave a state without the entry (the
  file store also writes the vault); \<^verbatim>\<open>listSecrets\<close> never returns a secret that is
  expired at \<open>now\<close>, and, names being unique in a workspace, does not return that name.
\<close>

theorem C3_lazy_expiration:
  "(stored_at s w n = Some e \<and> expiresAt (stored_metadata e) = Some x \<and> x < now \<longrightarrow>
      fst (MemoryBackend_retrieve s w n ver now) = Inl SecretNotFound
      \<and> stored_at (snd (MemoryBackend_retrieve s w n ver now)) w n = None
      \<and> fst (MemoryBackend_getMetadata s w n now) = Inl SecretNotFound
      \<and> stored_at (snd (MemoryBackend_getMetadata s w n now)) w n = None)
   \<and> (\<forall>y \<in> set (secrets (MemoryBackend_listSecrets lc pI s w flt cur lim now)).
         \<not> is_expired now (metadata y))
   \<and> (map_of s w = Some ws \<and> distinct (map fst ws) \<and> map_of ws n = Some e
        \<and> expiresAt (stored_metadata e) = Some x \<and> x < now \<longrightarrow>
      n \<notin> name ` set (secrets (MemoryBackend_listSecrets lc pI s w flt cur lim now)))
   \<and> (file_stored_at st w n = Some f \<and> expiresAt (stored_metadata f) = Some x \<and> x < now \<longrightarrow>
      fst (FileBackend_retrieve st w n ver now) = Inl SecretNotFound
      \<and> file_stored_at (snd (FileBackend_retrieve st w n ver now)) w n = None
      \<and> file_writes (snd (FileBackend_retrieve st w n ver now))
           = data (snd (FileBackend_retrieve st w n ver now)) # file_writes st
      \<and> fst (FileBackend_getMetadata st w n now) = Inl SecretNotFound
      \<and> file_stored_at (snd (FileBackend_getMetadata st w n now)) w n = None
      \<and> file_writes (snd (FileBackend_getMetadata st w n now))
           = data (snd (FileBackend_getMetadata st w n now)) # file_writes st)
   \<and> (\<forall>r. FileBackend_listSecrets lc pI st w flt cur lim now = Inr r \<longrightarrow>
         (\<forall>y \<in> set (secrets r). \<not> is_expired now (metadata y)))
   \<and> (map_of (workspaces (data st)) w = Some fws \<and> distinct (map fst fws)
        \<and> map_of fws n = Some f \<and> expiresAt (stored_metadata f) = Some x \<and> x < now \<longrightarrow>
      (\<exists>r. FileBackend_listSecrets lc pI st w flt cur lim now = Inr r
         \<and> n \<notin> name ` set (secrets r)))"
proof -
  have m1: "stored_at s w n = Some e \<and> expiresAt (stored_metadata e) = Some x \<and> x < now \<longrightarrow>
      fst (MemoryBackend_retrieve s w n ver now) = Inl SecretNotFound
      \<and> stored_at (snd (MemoryBackend_retrieve s w n ver now)) w n = None
      \<and> fst (MemoryBackend_getMetadata s w n now) = Inl SecretNotFound
      \<and> stored_at (snd (MemoryBackend_getMetadata s w n now)) w n = None"
  proof (intro impI)
    assume H: "stored_at s w n = Some e \<and> expiresAt (stored_metadata e) = Some x \<and> x < now"
    then have present: "stored_at s w n = Some e" and past: "is_expired now (stored_metadata e)"
      by (simp_all add: is_expired_past)
    show "fst (MemoryBackend_retrieve s w n ver now) = Inl SecretNotFound
      \<and> stored_at (snd (MemoryBackend_retrieve s w n ver now)) w n = None
      \<and> fst (MemoryBackend_getMetadata s w n now) = Inl SecretNotFound
      \<and> stored_at (snd (MemoryBackend_getMetadata s w n now)) w n = None"
      by (simp add: MemoryBackend_expired_access [OF present past])
  qed
  have m2: "\<forall>y \<in> set (secrets (MemoryBackend_listSecrets lc pI s w flt cur lim now)).
         \<not> is_expired now (metadata y)"
    using MemoryBackend_list_not_expired by blast
  have m3: "map_of s w = Some ws \<and> distinct (map fst ws) \<and> map_of ws n = Some e
        \<and> expiresAt (stored_metadata e) = Some x \<and> x < now \<longrightarrow>
      n \<notin> name ` set (secrets (MemoryBackend_listSecrets lc pI s w flt cur lim now))"
    using MemoryBackend_list_skips_expired [of s w ws n e now lc pI flt cur lim]
      is_expired_past [of "stored_metadata e" x now]
    by blast
  have f1: "file_stored_at st w n = Some f \<and> expiresAt (stored_metadata f) = Some x \<and> x < now \<longrightarrow>
      fst (FileBackend_retrieve st w n ver now) = Inl SecretNotFound
      \<and> file_stored_at (snd (FileBackend_retrieve st w n ver now)) w n = None
      \<and> file_writes (snd (FileBackend_retrieve st w n ver now))
           = data (snd (FileBackend_retrieve st w n ver now)) # file_writes st
      \<and> fst (FileBackend_getMetadata st w n now) = Inl SecretNotFound
      \<and> file_stored_at (snd (FileBackend_getMetadata st w n now)) w n = None
      \<and> file_writes (snd (FileBackend_getMetadata st w n now))
           = data (snd (FileBackend_getMetadata st w n now)) # file_writes st"
  proof (intro impI)
    assume H: "file_stored_at st w n = Some f \<and> expiresAt (stored_metadata f) = Some x \<and> x < now"
    then have present: "file_stored_at st w n = Some f" and past: "is_expired now (stored_metadata f)"
      by (simp_all add: is_expired_past)
    show "fst (FileBackend_retrieve st w n ver now) = Inl SecretNotFound
      \<and> file_stored_at (snd (FileBackend_retrieve st w n ver now)) w n = None
      \<and> file_writes (snd (FileBackend_retrieve st w n ver now))
           = data (snd (FileBackend_retrieve st w n ver now)) # file_writes st
      \<and> fst (FileBackend_getMetadata st w n now) = Inl SecretNotFound
      \<and> file_stored_at (snd (FileBackend_getMetadata st w n now)) w n = None
      \<and> file_writes (snd (FileBackend_getMetadata st w n now))
           = data (snd (FileBackend_getMetadata st w n now)) # file_writes st"
      by (simp add: FileBackend_expired_access [OF present past])
  qed
  have f2: "\<forall>r. FileBackend_listSecrets lc pI st w flt cur lim now = Inr r \<longrightarrow>
         (\<forall>y \<in> set (secrets r). \<not> is_expired now (metadata y))"
    using FileBackend_list_not_expired by blast
  have f3: "map_of (workspaces (data st)) w = Some fws \<and> distinct (map fst fws)
        \<and> map_of fws n = Some f \<and> expiresAt (stored_metadata f) = Some x \<and> x < now \<longrightarrow>
      (\<exists>r. FileBackend_listSecrets lc pI st w flt cur lim now = Inr r
         \<and> n \<notin> name ` set (secrets r))"
    using FileBackend_list_skips_expired [of st w fws n f now lc pI flt cur lim]
      is_expired_past [of "stored_metadata f" x now]
    by blast
  show ?thesis
    by (intro conjI) (fact m1 m2 m3 f1 f2 f3)+
qed

theorem C3_lazy_expiration_witness:
  "fst (MemoryBackend_retrieve expiring_memory ''default'' ''expired_key'' None 20) = Inl SecretNotFound
   \<and> stored_at (snd (MemoryBackend_retrieve expiring_memory ''default'' ''expired_key'' None 20))
        ''default'' ''expired_key'' = None
   \<and> fst (MemoryBackend_getMetadata expiring_memory ''default'' ''expired_key'' 20) = Inl SecretNotFound
   \<and> ''expired_key'' \<notin> name ` set (secrets
        (MemoryBackend_listSecrets (\<lambda>a b. 0) (\<lambda>c. None) expiring_memory ''default'' None None 100 20))
   \<and> fst (FileBackend_retrieve expiring_vault ''default'' ''expired_key'' None 20) = Inl SecretNotFound
   \<and> file_stored_at (snd (FileBackend_retrieve expiring_vault ''default'' ''expired_key'' None 20))
        ''default'' ''expired_key'' = None
   \<and> fst (FileBackend_getMetadata expiring_vault ''default'' ''expired_key'' 20) = Inl SecretNotFound
   \<and> (\<exists>r. FileBackend_listSecrets (\<lambda>a b. 0) (\<lambda>c. None) expiring_vault ''default'' None None 100 20 = Inr r
         \<and> ''expired_key'' \<notin> name ` set (secrets r))"
  using C3_lazy_expiration [where s = expiring_memory and st = expiring_vault
      and w = "''default''" and n = "''expired_key''" and now = 20 and x = 5 and ver = None
      and ws = "expiring_workspace MEMORY" and fws = "expiring_workspace FILE"
      and e = "\<lparr>stored_value = [1], stored_metadata = (sample_metadata MEMORY)\<lparr>expiresAt := Some 5\<rparr>\<rparr>"
      and f = "\<lparr>stored_value = [1], stored_metadata = (sample_metadata FILE)\<lparr>expiresAt := Some 5\<rparr>\<rparr>"
      and lc = "\<lambda>a b. 0" and pI = "\<lambda>c. None" and flt = None and cur = None and lim = 100]
  by (simp add: stored_at_def file_stored_at_def expiring_memory_def expiring_vault_def
      expiring_workspace_def sample_metadata_def)

section \<open>Delete and rotate\<close>

lemma MemoryBackend_delete_eq:
  "MemoryBackend_delete s w n =
     (case stored_at s w n of
        None \<Rightarrow> (False, s)
      | Some secret \<Rightarrow>
          (True, AList.update w (AList.delete n (case map_of s w of None \<Rightarrow> [] | Some t \<Rightarrow> t)) s))"
  by (simp add: MemoryBackend_delete_def stored_at_def Let_def delete_update_same
      split: option.splits)

lemma FileBackend_delete_present:
  assumes "map_of (workspaces (data st)) w = Some ws" and "map_of ws n = Some secret"
  shows "FileBackend_delete st w n
           = (Inr True, FileBackend_save (set_workspace st w (AList.delete n ws)))"
  using assms by (simp add: FileBackend_delete_def Let_def delete_update_same)

lemma MemoryBackend_rotate_eq:
  "MemoryBackend_rotate s w n v t1 t2 =
     (case stored_at s w n of
        None \<Rightarrow> (Inl SecretNotFound, s)
      | Some secret \<Rightarrow>
          if is_expired t1 (stored_metadata secret)
          then (Inl SecretNotFound,
                AList.update w (AList.delete n (case map_of s w of None \<Rightarrow> [] | Some t \<Rightarrow> t)) s)
          else (Inr (version (stored_metadata secret) + 1),
                snd (MemoryBackend_store s w n v None None t2)))"
  by (simp add: MemoryBackend_rotate_def BackendBase_rotate_def MemoryBackend_getMetadata_eq
      MemoryBackend_store_eq split: option.splits)

lemma FileBackend_rotate_present:
  assumes "file_stored_at st w n = Some f" and "\<not> is_expired t1 (stored_metadata f)"
  shows "FileBackend_rotate st w n v t1 t2
           = (Inr (version (stored_metadata f) + 1), snd (FileBackend_store st w n v None None t2))"
proof -
  from assms(1) obtain ws where ws: "map_of (workspaces (data st)) w = Some ws" "map_of ws n = Some f"
    by (auto dest: file_stored_at_SomeD)
  from FileBackend_store_present [OF assms(1), of v None None t2]
  obtain st' where "FileBackend_store st w n v None None t2
           = (Inr \<lparr>created = False, stored_version = version (stored_metadata f) + 1\<rparr>, st')"
    by blast
  with assms(2) show ?thesis
    by (simp add: FileBackend_rotate_def BackendBase_rotate_def
        FileBackend_getMetadata_present [OF ws])
qed

lemma FileBackend_rotate_Inr:
  assumes "FileBackend_rotate st w n v t1 t2 = (Inr k, st')"
  shows "\<exists>f. file_stored_at st w n = Some f \<and> \<not> is_expired t1 (stored_metadata f)"
proof (cases "map_of (workspaces (data st)) w")
  case None
  with assms show ?thesis
    by (auto simp: FileBackend_rotate_def BackendBase_rotate_def FileBackend_getMetadata_def
        js_get_None split: if_splits)
next
  case (Some ws)
  show ?thesis
  proof (cases "map_of ws n")
    case None
    with Some assms show ?thesis
      by (auto simp: FileBackend_rotate_def BackendBase_rotate_def FileBackend_getMetadata_def
          js_get_None split: if_splits)
  next
    case (Some f)
    with \<open>map_of (workspaces (data st)) w = Some ws\<close> assms show ?thesis
      by (auto simp: FileBackend_rotate_def BackendBase_rotate_def
          FileBackend_getMetadata_present file_stored_at_def stored_at_def split: if_splits)
  qed
qed

section \<open>Delete ignores expiry\<close>

text \<open>
  C10. \<^verbatim>\<open>delete\<close> reads no clock. In both stores, on a secret that is still stored,
  whatever its \<open>expiresAt\<close>, it returns true and leaves a state without the entry (the
  file store writes the vault); and when the secret's \<open>expiresAt\<close> is before \<open>now\<close>,
  \<^verbatim>\<open>retrieve\<close> and \<^verbatim>\<open>getMetadata\<close> on that state at \<open>now\<close> fail with \<open>SecretNotFound\<close>.
\<close>

theorem C10_delete_ignores_expiry:
  "(stored_at s w n = Some e \<longrightarrow>
      fst (MemoryBackend_delete s w n) = True
      \<and> stored_at (snd (MemoryBackend_delete s w n)) w n = None)
   \<and> (stored_at s w n = Some e \<and> expiresAt (stored_metadata e) = Some x \<and> x < now \<longrightarrow>
      fst (MemoryBackend_retrieve s w n ver now) = Inl SecretNotFound
      \<and> fst (MemoryBackend_getMetadata s w n now) = Inl SecretNotFound)
   \<and> (file_stored_at st w n = Some f \<longrightarrow>
      fst (FileBackend_delete st w n) = Inr True
      \<and> file_stored_at (snd (FileBackend_delete st w n)) w n = None
      \<and> file_writes (snd (FileBackend_delete st w n))
           = data (snd (FileBackend_delete st w n)) # file_writes st)
   \<and> (file_stored_at st w n = Some f \<and> expiresAt (stored_metadata f) = Some x \<and> x < now \<longrightarrow>
      fst (FileBackend_retrieve st w n ver now) = Inl SecretNotFound
      \<and> fst (FileBackend_getMetadata st w n now) = Inl SecretNotFound)"
proof -
  have m1: "stored_at s w n = Some e \<longrightarrow>
      fst (MemoryBackend_delete s w n) = True
      \<and> stored_at (snd (MemoryBackend_delete s w n)) w n = None"
    by (simp add: MemoryBackend_delete_eq stored_at_update delete_conv')
  have m2: "stored_at s w n = Some e \<and> expiresAt (stored_metadata e) = Some x \<and> x < now \<longrightarrow>
      fst (MemoryBackend_retrieve s w n ver now) = Inl SecretNotFound
      \<and> fst (MemoryBackend_getMetadata s w n now) = Inl SecretNotFound"
    by (simp add: MemoryBackend_retrieve_eq MemoryBackend_getMetadata_eq is_expired_def)
  have f1: "file_stored_at st w n = Some f \<longrightarrow>
      fst (FileBackend_delete st w n) = Inr True
      \<and> file_stored_at (snd (FileBackend_delete st w n)) w n = None
      \<and> file_writes (snd (FileBackend_delete st w n))
           = data (snd (FileBackend_delete st w n)) # file_writes st"
  proof
    assume "file_stored_at st w n = Some f"
    then obtain ws where ws: "map_of (workspaces (data st)) w = Some ws" "map_of ws n = Some f"
      by (auto dest: file_stored_at_SomeD)
    show "fst (FileBackend_delete st w n) = Inr True
      \<and> file_stored_at (snd (FileBackend_delete st w n)) w n = None
      \<and> file_writes (snd (FileBackend_delete st w n))
           = data (snd (FileBackend_delete st w n)) # file_writes st"
      by (simp add: FileBackend_delete_present [OF ws] file_stored_at_set_workspace delete_conv')
  qed
  have f2: "file_stored_at st w n = Some f \<and> expiresAt (stored_metadata f) = Some x \<and> x < now \<longrightarrow>
      fst (FileBackend_retrieve st w n ver now) = Inl SecretNotFound
      \<and> fst (FileBackend_getMetadata st w n now) = Inl SecretNotFound"
  proof
    assume H: "file_stored_at st w n = Some f \<and> expiresAt (stored_metadata f) = Some x \<and> x < now"
    then have present: "file_stored_at st w n = Some f" and past: "is_expired now (stored_metadata f)"
      by (simp_all add: is_expired_past)
    show "fst (FileBackend_retrieve st w n ver now) = Inl SecretNotFound
      \<and> fst (FileBackend_getMetadata st w n now) = Inl SecretNotFound"
      by (simp add: FileBackend_expired_access [OF present past])
  qed
  show ?thesis
    by (intro conjI) (fact m1 m2 f1 f2)+
qed

theorem C10_delete_ignores_expiry_witness:
  "MemoryBackend_delete expiring_memory ''default'' ''expired_key''
     = (True, [(''default'',
          [(''valid_key'', \<lparr>stored_value = [2], stored_metadata = sample_metadata MEMORY\<rparr>)])])
   \<and> fst (MemoryBackend_retrieve expiring_memory ''default'' ''expired_key'' None 20)
       = Inl SecretNotFound
   \<and> fst (FileBackend_delete expiring_vault ''default'' ''expired_key'') = Inr True
   \<and> file_stored_at (snd (FileBackend_delete expiring_vault ''default'' ''expired_key''))
        ''default'' ''expired_key'' = None
   \<and> fst (FileBackend_getMetadata expiring_vault ''default'' ''expired_key'' 20)
       = Inl SecretNotFound"
  using C10_delete_ignores_expiry [where s = expiring_memory and st = expiring_vault
      and w = "''default''" and n = "''expired_key''" and now = 20 and x = 5 and ver = None
      and e = "\<lparr>stored_value = [1], stored_metadata = (sample_metadata MEMORY)\<lparr>expiresAt := Some 5\<rparr>\<rparr>"
      and f = "\<lparr>stored_value = [1], stored_metadata = (sample_metadata FILE)\<lparr>expiresAt := Some 5\<rparr>\<rparr>"]
  by (simp add: stored_at_def file_stored_at_def expiring_memory_def expiring_vault_def
      expiring_workspace_def sample_metadata_def MemoryBackend_delete_eq)

section \<open>Rotate drops labels and expiry\<close>

text \<open>
  C9. In both stores, the default \<^verbatim>\<open>rotate\<close> on a secret that is stored and not expired
  succeeds with the stored version plus one, and the record it leaves holds the new
  value, the empty label record and no \<open>expiresAt\<close>, whatever labels and expiry the
  secret had; and whenever \<^verbatim>\<open>rotate\<close> returns a version, the secret was stored and not
  expired, so every successful rotate ends so.
\<close>

theorem C9_rotate_resets_labels_and_expiry:
  "(stored_at s w n = Some e \<and> \<not> is_expired t1 (stored_metadata e) \<longrightarrow>
      (\<exists>s' e'. MemoryBackend_rotate s w n v t1 t2 = (Inr (version (stored_metadata e) + 1), s')
         \<and> stored_at s' w n = Some e' \<and> stored_value e' = v
         \<and> labels (stored_metadata e') = [] \<and> expiresAt (stored_metadata e') = None
         \<and> version (stored_metadata e') = version (stored_metadata e) + 1))
   \<and> (\<forall>k s'. MemoryBackend_rotate s w n v t1 t2 = (Inr k, s') \<longrightarrow>
         (\<exists>e. stored_at s w n = Some e \<and> \<not> is_expired t1 (stored_metadata e)))
   \<and> (file_stored_at st w n = Some f \<and> \<not> is_expired t1 (stored_metadata f) \<longrightarrow>
      (\<exists>st' f'. FileBackend_rotate st w n v t1 t2 = (Inr (version (stored_metadata f) + 1), st')
         \<and> file_stored_at st' w n = Some f' \<and> stored_value f' = v
         \<and> labels (stored_metadata f') = [] \<and> expiresAt (stored_metadata f') = None
         \<and> version (stored_metadata f') = version (stored_metadata f) + 1))
   \<and> (\<forall>k st'. FileBackend_rotate st w n v t1 t2 = (Inr k, st') \<longrightarrow>
         (\<exists>f. file_stored_at st w n = Some f \<and> \<not> is_expired t1 (stored_metadata f)))"
proof -
  have m1: "stored_at s w n = Some e \<and> \<not> is_expired t1 (stored_metadata e) \<longrightarrow>
      (\<exists>s' e'. MemoryBackend_rotate s w n v t1 t2 = (Inr (version (stored_metadata e) + 1), s')
         \<and> stored_at s' w n = Some e' \<and> stored_value e' = v
         \<and> labels (stored_metadata e') = [] \<and> expiresAt (stored_metadata e') = None
         \<and> version (stored_metadata e') = version (stored_metadata e) + 1)"
    by (simp add: MemoryBackend_rotate_eq MemoryBackend_store_eq stored_at_update update_conv')
  have m2: "\<forall>k s'. MemoryBackend_rotate s w n v t1 t2 = (Inr k, s') \<longrightarrow>
         (\<exists>e. stored_at s w n = Some e \<and> \<not> is_expired t1 (stored_metadata e))"
    by (auto simp: MemoryBackend_rotate_eq split: option.splits if_splits)
  have f1: "file_stored_at st w n = Some f \<and> \<not> is_expired t1 (stored_metadata f) \<longrightarrow>
      (\<exists>st' f'. FileBackend_rotate st w n v t1 t2 = (Inr (version (stored_metadata f) + 1), st')
         \<and> file_stored_at st' w n = Some f' \<and> stored_value f' = v
         \<and> labels (stored_metadata f') = [] \<and> expiresAt (stored_metadata f') = None
         \<and> version (stored_metadata f') = version (stored_metadata f) + 1)"
  proof
    assume H: "file_stored_at st w n = Some f \<and> \<not> is_expired t1 (stored_metadata f)"
    then have present: "file_stored_at st w n = Some f"
      and live: "\<not> is_expired t1 (stored_metadata f)" by simp_all
    from FileBackend_store_present [OF present, of v None None t2]
    obtain st' f' where "FileBackend_store st w n v None None t2
           = (Inr \<lparr>created = False, stored_version = version (stored_metadata f) + 1\<rparr>, st')"
      and "file_stored_at st' w n = Some f'" "stored_value f' = v"
      and "labels (stored_metadata f') = []" "expiresAt (stored_metadata f') = None"
      and "version (stored_metadata f') = version (stored_metadata f) + 1"
      by auto
    then show "\<exists>st' f'. FileBackend_rotate st w n v t1 t2 = (Inr (version (stored_metadata f) + 1), st')
         \<and> file_stored_at st' w n = Some f' \<and> stored_value f' = v
         \<and> labels (stored_metadata f') = [] \<and> expiresAt (stored_metadata f') = None
         \<and> version (stored_metadata f') = version (stored_metadata f) + 1"
      by (simp add: FileBackend_rotate_present [OF present live])
  qed
  have f2: "\<forall>k st'. FileBackend_rotate st w n v t1 t2 = (Inr k, st') \<longrightarrow>
         (\<exists>f. file_stored_at st w n = Some f \<and> \<not> is_expired t1 (stored_metadata f))"
    using FileBackend_rotate_Inr by blast
  show ?thesis
    by (intro conjI) (fact m1 m2 f1 f2)+
qed

theorem C9_rotate_resets_labels_and_expiry_witness:
  "(\<exists>s' e'. MemoryBackend_rotate labelled_memory ''default'' ''api_key'' [9] 20 21 = (Inr 2, s')
       \<and> stored_at s' ''default'' ''api_key'' = Some e' \<and> stored_value e' = [9]
       \<and> labels (stored_metadata e') = [] \<and> expiresAt (stored_metadata e') = None)
   \<and> (\<exists>st' f'. FileBackend_rotate labelled_vault ''default'' ''api_key'' [9] 20 21 = (Inr 2, st')
       \<and> file_stored_at st' ''default'' ''api_key'' = Some f' \<and> stored_value f' = [9]
       \<and> labels (stored_metadata f') = [] \<and> expiresAt (stored_metadata f') = None)"
  using C9_rotate_resets_labels_and_expiry [where s = labelled_memory and st = labelled_vault
      and w = "''default''" and n = "''api_key''" and v = "[9]" and ?t1.0 = 20 and ?t2.0 = 21
      and e = "\<lparr>stored_value = [1], stored_metadata = (sample_metadata MEMORY)
            \<lparr>labels := [(''env'', ''prod'')], expiresAt := Some 1000\<rparr>\<rparr>"
      and f = "\<lparr>stored_value = [1], stored_metadata = (sample_metadata FILE)
            \<lparr>labels := [(''env'', ''prod'')], expiresAt := Some 1000\<rparr>\<rparr>"]
  by (auto simp: stored_at_def file_stored_at_def labelled_memory_def labelled_vault_def
      sample_metadata_def is_expired_def)

section \<open>Rotate on a name that is not stored\<close>

lemma MemoryBackend_rotate_absent:
  "stored_at s w n = None \<Longrightarrow> MemoryBackend_rotate s w n v t1 t2 = (Inl SecretNotFound, s)"
  by (simp add: MemoryBackend_rotate_eq)

lemma MemoryBackend_rotate_never_creates:
  "stored_at s w n = None \<Longrightarrow> stored_at (snd (MemoryBackend_rotate s w n v t1 t2)) w n = None"
  by (simp add: MemoryBackend_rotate_eq)

lemma MemoryBackend_rotate_failure_leaves_absent:
  "fst (MemoryBackend_rotate s w n v t1 t2) = Inl err \<Longrightarrow>
     err = SecretNotFound \<and> stored_at (snd (MemoryBackend_rotate s w n v t1 t2)) w n = None"
  by (auto simp: MemoryBackend_rotate_eq stored_at_update delete_conv'
      split: option.splits if_splits)

lemma FileBackend_rotate_absent:
  assumes "file_stored_at st w n = None"
  shows "FileBackend_rotate st w n v t1 t2 =
     (if map_of (workspaces (data st)) w = None
      then (if w \<in> set Object_prototype_keys then (Inl OutsideModel, st)
            else (Inl SecretNotFound, st))
      else (if n \<in> set Object_prototype_keys then (Inl TypeError, st)
            else (Inl SecretNotFound, st)))"
proof (cases "map_of (workspaces (data st)) w")
  case None
  then show ?thesis
    by (simp add: FileBackend_rotate_def BackendBase_rotate_def FileBackend_getMetadata_def
        js_get_None)
next
  case (Some ws)
  with assms have "map_of ws n = None"
    by (simp add: file_stored_at_def stored_at_def)
  with Some show ?thesis
    by (simp add: FileBackend_rotate_def BackendBase_rotate_def FileBackend_getMetadata_def
        js_get_None)
qed

text \<open>
  C7. On the memory store \<^verbatim>\<open>rotate\<close> on a name that is not stored fails with
  \<open>SecretNotFound\<close> and changes nothing (\<open>MemoryBackend_rotate_absent\<close>), and on the
  file store it fails and writes nothing (\<open>FileBackend_rotate_absent\<close>). But there the
  failure is a \<^verbatim>\<open>TypeError\<close>, not \<open>SecretNotFound\<close>, when the workspace exists and the
  name is a member of \<^verbatim>\<open>Object.prototype\<close>, as \<open>constructor\<close> is: \<^verbatim>\<open>getMetadata\<close> reads
  \<^verbatim>\<open>ws[name]\<close>, gets the inherited function, passes its guard \<^verbatim>\<open>!ws[name]\<close> and throws
  on \<^verbatim>\<open>stored.metadata.expiresAt\<close>.
\<close>

theorem C7_file_rotate_constructor:
  "file_stored_at sample_vault ''default'' ''constructor'' = None
   \<and> FileBackend_getMetadata sample_vault ''default'' ''constructor'' 20
        = (Inl TypeError, sample_vault)
   \<and> FileBackend_rotate sample_vault ''default'' ''constructor'' [2] 20 21
        = (Inl TypeError, sample_vault)
   \<and> MemoryBackend_rotate sample_memory ''default'' ''constructor'' [2] 20 21
        = (Inl SecretNotFound, sample_memory)"
  by (simp add: FileBackend_rotate_def BackendBase_rotate_def FileBackend_getMetadata_def
      MemoryBackend_rotate_eq js_get_def Object_prototype_keys_def
      file_stored_at_def stored_at_def sample_vault_def sample_memory_def)

section \<open>Opening a vault that does not decrypt\<close>

text \<open>
  C5, as stated: whenever the vault file exists and its contents do not decrypt under
  the derived key, construction fails. It does not hold: \<^verbatim>\<open>_load\<close> returns the empty
  default vault for an existing file of length zero before any decryption, even under a
  cipher that authenticates nothing.
\<close>

theorem C5_empty_file_counterexample:
  "fs_with ''vault.enc'' [] ''vault.enc'' = Some []
   \<and> FileBackend_decrypt rejecting_decipher
        (sample_scrypt ''wrong'' (map of_char ''avp_file_backend_v1'') 32) [] = None
   \<and> FileBackend_new sample_scrypt rejecting_decipher rejecting_parse
        (fs_with ''vault.enc'' []) ''vault.enc'' ''wrong''
      = Inr \<lparr>data = \<lparr>data_version = 1, workspaces = []\<rparr>, file_writes = []\<rparr>"
  by (simp add: FileBackend_new_def FileBackend_load_def FileBackend_decrypt_def
      rejecting_decipher_def fs_with_def empty_StoredData_def Let_def)

text \<open>
  C5, amended. Constructing the file store over an existing vault file that is not
  empty and whose contents do not decrypt and authenticate under the key derived from
  the password, or decrypt to a text that does not parse, fails with
  \<open>EncryptionError\<close>: no store is constructed, with no partial or default data.
\<close>

theorem C5_undecryptable_vault_fails:
  "fs path = Some encrypted \<and> encrypted \<noteq> []
   \<and> (FileBackend_decrypt decipher (scrypt password (map of_char ''avp_file_backend_v1'') 32)
         encrypted = None
       \<or> (\<exists>text. FileBackend_decrypt decipher
                     (scrypt password (map of_char ''avp_file_backend_v1'') 32) encrypted
                   = Some text \<and> parse text = None))
   \<longrightarrow> FileBackend_new scrypt decipher parse fs path password = Inl EncryptionError"
  by (auto simp: FileBackend_new_def FileBackend_load_def Let_def)

theorem C5_undecryptable_vault_fails_witness:
  "fs_with ''vault.enc'' [1, 2, 3] ''vault.enc'' = Some [1, 2, 3]
   \<and> FileBackend_new sample_scrypt rejecting_decipher rejecting_parse
        (fs_with ''vault.enc'' [1, 2, 3]) ''vault.enc'' ''wrong'' = Inl EncryptionError"
  using C5_undecryptable_vault_fails [where fs = "fs_with ''vault.enc'' [1, 2, 3]"
      and path = "''vault.enc''" and encrypted = "[1, 2, 3]" and decipher = rejecting_decipher
      and scrypt = sample_scrypt and password = "''wrong''" and parse = rejecting_parse]
  by (simp add: fs_with_def FileBackend_decrypt_def rejecting_decipher_def)

section \<open>Session time-to-live\<close>

lemma AVPClient_authenticate_session:
  assumes "validateWorkspaceId (case opt_workspace opts of None \<Rightarrow> ''default'' | Some x \<Rightarrow> x)"
    and "authMethod opts \<noteq> Some TERMINATE"
  shows "\<exists>session c'. AVPClient_authenticate c opts token now = (Inr session, c')
           \<and> ttlSeconds session
               = min (case requestedTtl opts of None \<Rightarrow> 3600 | Some t \<Rightarrow> t)
                     (maxSessionTtlSeconds (limits c))
           \<and> session_expiresAt session = now + ttlSeconds session * 1000
           \<and> sessionId session = ''avp_sess_'' @ token
           \<and> map_of (sessions c') (sessionId session) = Some session"
proof -
  from assms(2) have "(case authMethod opts of None \<Rightarrow> NONE | Some m \<Rightarrow> m) \<noteq> TERMINATE"
    by (cases "authMethod opts") auto
  with assms(1) show ?thesis
    by (cases "requestedTtl opts")
      (simp_all add: AVPClient_authenticate_def Let_def DEFAULT_TTL_def update_conv')
qed

text \<open>
  C8. \<^verbatim>\<open>authenticate\<close> on a well-formed workspace id and a method other than
  \<^verbatim>\<open>TERMINATE\<close> returns a session, stored in the session table under its id, whose
  \<open>ttlSeconds\<close> is the minimum of the requested time-to-live (3600 when none is
  requested) and the backend's \<open>maxSessionTtlSeconds\<close>. With the limits of the memory
  store, of the file store, or the default ones, a request for 999999 gives 86400.
\<close>

theorem C8_authenticate_clamps_ttl:
  "(validateWorkspaceId (case opt_workspace opts of None \<Rightarrow> ''default'' | Some x \<Rightarrow> x)
      \<and> authMethod opts \<noteq> Some TERMINATE \<longrightarrow>
      (\<exists>session c'. AVPClient_authenticate c opts token now = (Inr session, c')
         \<and> ttlSeconds session
             = min (case requestedTtl opts of None \<Rightarrow> 3600 | Some t \<Rightarrow> t)
                   (maxSessionTtlSeconds (limits c))
         \<and> map_of (sessions c') (sessionId session) = Some session))
   \<and> (validateWorkspaceId (case opt_workspace opts of None \<Rightarrow> ''default'' | Some x \<Rightarrow> x)
      \<and> authMethod opts \<noteq> Some TERMINATE \<and> requestedTtl opts = Some 999999
      \<and> limits c \<in> {MemoryBackend_limits, FileBackend_limits, defaultLimits} \<longrightarrow>
      (\<exists>session c'. AVPClient_authenticate c opts token now = (Inr session, c')
         \<and> ttlSeconds session = 86400 \<and> ttlSeconds session \<le> 86400))"
proof -
  have general: "validateWorkspaceId (case opt_workspace opts of None \<Rightarrow> ''default'' | Some x \<Rightarrow> x)
      \<and> authMethod opts \<noteq> Some TERMINATE \<longrightarrow>
      (\<exists>session c'. AVPClient_authenticate c opts token now = (Inr session, c')
         \<and> ttlSeconds session
             = min (case requestedTtl opts of None \<Rightarrow> 3600 | Some t \<Rightarrow> t)
                   (maxSessionTtlSeconds (limits c))
         \<and> map_of (sessions c') (sessionId session) = Some session)"
    using AVPClient_authenticate_session [of opts c token now] by blast
  have scenario: "validateWorkspaceId (case opt_workspace opts of None \<Rightarrow> ''default'' | Some x \<Rightarrow> x)
      \<and> authMethod opts \<noteq> Some TERMINATE \<and> requestedTtl opts = Some 999999
      \<and> limits c \<in> {MemoryBackend_limits, FileBackend_limits, defaultLimits} \<longrightarrow>
      (\<exists>session c'. AVPClient_authenticate c opts token now = (Inr session, c')
         \<and> ttlSeconds session = 86400 \<and> ttlSeconds session \<le> 86400)"
  proof
    assume H: "validateWorkspaceId (case opt_workspace opts of None \<Rightarrow> ''default'' | Some x \<Rightarrow> x)
      \<and> authMethod opts \<noteq> Some TERMINATE \<and> requestedTtl opts = Some 999999
      \<and> limits c \<in> {MemoryBackend_limits, FileBackend_limits, defaultLimits}"
    then have max: "maxSessionTtlSeconds (limits c) = 86400"
      by (auto simp: MemoryBackend_limits_def FileBackend_limits_def defaultLimits_def)
    from H AVPClient_authenticate_session [of opts c token now]
    obtain session c' where "AVPClient_authenticate c opts token now = (Inr session, c')"
      and "ttlSeconds session
             = min (case requestedTtl opts of None \<Rightarrow> 3600 | Some t \<Rightarrow> t)
                   (maxSessionTtlSeconds (limits c))"
      by blast
    with H max show "\<exists>session c'. AVPClient_authenticate c opts token now = (Inr session, c')
         \<and> ttlSeconds session = 86400 \<and> ttlSeconds session \<le> 86400"
      by simp
  qed
  show ?thesis
    by (intro conjI) (fact general scenario)+
qed

theorem C8_authenticate_clamps_ttl_witness:
  "validateWorkspaceId ''default''
   \<and> (\<exists>session c'. AVPClient_authenticate memory_client (ttl_request (Some 999999)) ''r4nd0m'' 5000
                      = (Inr session, c')
         \<and> ttlSeconds session = 86400
         \<and> map_of (sessions c') (sessionId session) = Some session)
   \<and> (\<exists>session c'. AVPClient_authenticate memory_client (ttl_request (Some 300)) ''r4nd0m'' 5000
                      = (Inr session, c')
         \<and> ttlSeconds session = 300)
   \<and> (\<exists>session c'. AVPClient_authenticate memory_client (ttl_request None) ''r4nd0m'' 5000
                      = (Inr session, c')
         \<and> ttlSeconds session = 3600)"
proof -
  have valid: "validateWorkspaceId ''default''"
    by (simp add: validateWorkspaceId_def ascii_letter_def is_digit_def)
  show ?thesis
    using valid
      C8_authenticate_clamps_ttl [where c = memory_client and opts = "ttl_request (Some 999999)"
        and token = "''r4nd0m''" and now = 5000]
      C8_authenticate_clamps_ttl [where c = memory_client and opts = "ttl_request (Some 300)"
        and token = "''r4nd0m''" and now = 5000]
      C8_authenticate_clamps_ttl [where c = memory_client and opts = "ttl_request None"
        and token = "''r4nd0m''" and now = 5000]
    by (auto simp: memory_client_def ttl_request_def MemoryBackend_limits_def)
qed

section \<open>Sorted pages\<close>

lemma sorted_insert_sorted:
  assumes total: "\<And>a b. cmp a b \<le> 0 \<or> cmp b a \<le> 0"
    and trans: "\<And>a b c. cmp a b \<le> 0 \<Longrightarrow> cmp b c \<le> 0 \<Longrightarrow> cmp a c \<le> 0"
    and "sorted_wrt (\<lambda>a b. cmp a b \<le> 0) xs"
  shows "sorted_wrt (\<lambda>a b. cmp a b \<le> 0) (insert_sorted cmp x xs)"
  using assms(3)
proof (induction xs)
  case Nil
  then show ?case by simp
next
  case (Cons y ys)
  show ?case
  proof (cases "cmp x y \<le> 0")
    case True
    with Cons.prems trans show ?thesis by auto
  next
    case False
    with total have "cmp y x \<le> 0" by blast
    with False Cons show ?thesis by (auto simp: set_insert_sorted)
  qed
qed

lemma sorted_Array_sort:
  assumes "\<And>a b. cmp a b \<le> 0 \<or> cmp b a \<le> 0"
    and "\<And>a b c. cmp a b \<le> 0 \<Longrightarrow> cmp b c \<le> 0 \<Longrightarrow> cmp a c \<le> 0"
  shows "sorted_wrt (\<lambda>a b. cmp a b \<le> 0) (Array_sort cmp xs)"
proof (induction xs)
  case Nil
  then show ?case by (simp add: Array_sort_def)
next
  case (Cons x xs)
  have "sorted_wrt (\<lambda>a b. cmp a b \<le> 0) (insert_sorted cmp x (Array_sort cmp xs))"
    by (rule sorted_insert_sorted [OF assms Cons.IH])
  then show ?case by (simp add: Array_sort_def)
qed

lemma sorted_Array_slice:
  "sorted_wrt P xs \<Longrightarrow> sorted_wrt P (Array_slice a b xs)"
  by (simp add: Array_slice_def Let_def)

lemma Array_slice_Nil [simp]: "Array_slice a b [] = []"
  by (simp add: Array_slice_def)

lemma secrets_paginate:
  "secrets (paginate lc pI found cur lim)
     = Array_slice (page_start pI cur) (page_start pI cur + lim)
         (Array_sort (\<lambda>a b. lc (name a) (name b)) found)"
  by (simp add: paginate_def Let_def)

lemma MemoryBackend_listSecrets_slice:
  "\<exists>found. \<forall>cur lim. secrets (MemoryBackend_listSecrets lc pI s w flt cur lim now)
     = Array_slice (page_start pI cur) (page_start pI cur + lim)
         (Array_sort (\<lambda>a b. lc (name a) (name b)) found)"
proof (cases "map_of s w")
  case None
  then have "\<forall>cur lim. secrets (MemoryBackend_listSecrets lc pI s w flt cur lim now)
     = Array_slice (page_start pI cur) (page_start pI cur + lim)
         (Array_sort (\<lambda>a b. lc (name a) (name b)) [])"
    by (simp add: MemoryBackend_listSecrets_def Array_sort_def)
  then show ?thesis ..
next
  case (Some ws)
  then show ?thesis
    by (auto simp: MemoryBackend_listSecrets_def secrets_paginate)
qed

lemma FileBackend_listSecrets_slice:
  "\<exists>found. \<forall>cur lim r. FileBackend_listSecrets lc pI st w flt cur lim now = Inr r \<longrightarrow>
     secrets r = Array_slice (page_start pI cur) (page_start pI cur + lim)
         (Array_sort (\<lambda>a b. lc (name a) (name b)) found)"
proof (cases "js_get (workspaces (data st)) w")
  case (Own ws)
  then show ?thesis
    by (auto simp: FileBackend_listSecrets_def secrets_paginate)
next
  case Inherited
  then show ?thesis
    by (simp add: FileBackend_listSecrets_def)
next
  case Undefined
  then have "\<forall>cur lim r. FileBackend_listSecrets lc pI st w flt cur lim now = Inr r \<longrightarrow>
     secrets r = Array_slice (page_start pI cur) (page_start pI cur + lim)
         (Array_sort (\<lambda>a b. lc (name a) (name b)) [])"
    by (auto simp: FileBackend_listSecrets_def Array_sort_def)
  then show ?thesis ..
qed

text \<open>
  C6. Let \<^verbatim>\<open>localeCompare\<close> be a collation: any two names are comparable and the
  comparison is transitive. Then in both stores, for every workspace, label filter,
  cursor and limit, the page that \<^verbatim>\<open>listSecrets\<close> returns is sorted by name in ascending
  collation order; and the pages are cut from one sorted listing that depends neither
  on the cursor nor on the limit: the page is the slice of it from the start index that
  the cursor gives, of the length that the limit gives.
\<close>

theorem C6_pages_sorted_by_name:
  assumes "\<forall>a b. lc a b \<le> 0 \<or> lc b a \<le> 0"
    and "\<forall>a b c. lc a b \<le> 0 \<and> lc b c \<le> 0 \<longrightarrow> lc a c \<le> 0"
  shows "sorted_wrt (\<lambda>x y. lc (name x) (name y) \<le> 0)
           (secrets (MemoryBackend_listSecrets lc pI s w flt cur lim now))
    \<and> (\<exists>listing. sorted_wrt (\<lambda>x y. lc (name x) (name y) \<le> 0) listing
          \<and> (\<forall>cur' lim'. secrets (MemoryBackend_listSecrets lc pI s w flt cur' lim' now)
                = Array_slice (page_start pI cur') (page_start pI cur' + lim') listing))
    \<and> (\<forall>r. FileBackend_listSecrets lc pI st w flt cur lim now = Inr r \<longrightarrow>
          sorted_wrt (\<lambda>x y. lc (name x) (name y) \<le> 0) (secrets r))
    \<and> (\<exists>listing. sorted_wrt (\<lambda>x y. lc (name x) (name y) \<le> 0) listing
          \<and> (\<forall>cur' lim' r. FileBackend_listSecrets lc pI st w flt cur' lim' now = Inr r \<longrightarrow>
                secrets r = Array_slice (page_start pI cur') (page_start pI cur' + lim') listing))"
proof -
  have sorted: "sorted_wrt (\<lambda>x y. lc (name x) (name y) \<le> 0)
                  (Array_sort (\<lambda>x y. lc (name x) (name y)) found)" for found :: "Secret list"
  proof (rule sorted_Array_sort)
    show "lc (name a) (name b) \<le> 0 \<or> lc (name b) (name a) \<le> 0" for a b :: Secret
      using assms(1) by blast
    show "lc (name a) (name b) \<le> 0 \<Longrightarrow> lc (name b) (name c) \<le> 0 \<Longrightarrow> lc (name a) (name c) \<le> 0"
      for a b c :: Secret
      using assms(2) by blast
  qed
  obtain mfound where m: "\<forall>cur' lim'. secrets (MemoryBackend_listSecrets lc pI s w flt cur' lim' now)
     = Array_slice (page_start pI cur') (page_start pI cur' + lim')
         (Array_sort (\<lambda>a b. lc (name a) (name b)) mfound)"
    using MemoryBackend_listSecrets_slice [of lc pI s w flt now] by blast
  obtain ffound where f: "\<forall>cur' lim' r. FileBackend_listSecrets lc pI st w flt cur' lim' now = Inr r \<longrightarrow>
     secrets r = Array_slice (page_start pI cur') (page_start pI cur' + lim')
         (Array_sort (\<lambda>a b. lc (name a) (name b)) ffound)"
    using FileBackend_listSecrets_slice [of lc pI st w flt now] by blast
  have m1: "sorted_wrt (\<lambda>x y. lc (name x) (name y) \<le> 0)
           (secrets (MemoryBackend_listSecrets lc pI s w flt cur lim now))"
    using m sorted [of mfound] by (simp add: sorted_Array_slice)
  have m2: "\<exists>listing. sorted_wrt (\<lambda>x y. lc (name x) (name y) \<le> 0) listing
          \<and> (\<forall>cur' lim'. secrets (MemoryBackend_listSecrets lc pI s w flt cur' lim' now)
                = Array_slice (page_start pI cur') (page_start pI cur' + lim') listing)"
    using m sorted [of mfound] by blast
  have f1: "\<forall>r. FileBackend_listSecrets lc pI st w flt cur lim now = Inr r \<longrightarrow>
          sorted_wrt (\<lambda>x y. lc (name x) (name y) \<le> 0) (secrets r)"
    using f sorted [of ffound] by (simp add: sorted_Array_slice)
  have f2: "\<exists>listing. sorted_wrt (\<lambda>x y. lc (name x) (name y) \<le> 0) listing
          \<and> (\<forall>cur' lim' r. FileBackend_listSecrets lc pI st w flt cur' lim' now = Inr r \<longrightarrow>
                secrets r = Array_slice (page_start pI cur') (page_start pI cur' + lim') listing)"
    using f sorted [of ffound] by blast
  show ?thesis
    by (intro conjI) (fact m1 m2 f1 f2)+
qed

theorem C6_pages_sorted_by_name_witness:
  "sorted_wrt (\<lambda>x y. length_collation (name x) (name y) \<le> 0)
     (secrets (MemoryBackend_listSecrets length_collation (\<lambda>c. None) unsorted_memory
                 ''default'' None None 2 20))
   \<and> (\<exists>r. FileBackend_listSecrets length_collation (\<lambda>c. None) unsorted_vault
              ''default'' None None 2 20 = Inr r
          \<and> sorted_wrt (\<lambda>x y. length_collation (name x) (name y) \<le> 0) (secrets r))"
proof -
  have total: "\<forall>a b. length_collation a b \<le> 0 \<or> length_collation b a \<le> 0"
    by (auto simp: length_collation_def)
  have trans: "\<forall>a b c. length_collation a b \<le> 0 \<and> length_collation b c \<le> 0
                 \<longrightarrow> length_collation a c \<le> 0"
    by (auto simp: length_collation_def)
  have listed: "\<exists>r. FileBackend_listSecrets length_collation (\<lambda>c. None) unsorted_vault
                  ''default'' None None 2 20 = Inr r"
    by (simp add: FileBackend_listSecrets_def unsorted_vault_def)
  show ?thesis
    using listed
      C6_pages_sorted_by_name [OF total trans, where pI = "\<lambda>c. None" and s = unsorted_memory
        and st = unsorted_vault and w = "''default''" and flt = None and cur = None
        and lim = 2 and now = 20]
    by blast
qed

lemma unsorted_memory_first_page:
  "map name (secrets (MemoryBackend_listSecrets length_collation (\<lambda>c. None) unsorted_memory
                        ''default'' None None 2 20)) = [''a'', ''bb'']
   \<and> cursor (MemoryBackend_listSecrets length_collation (\<lambda>c. None) unsorted_memory
                ''default'' None None 2 20) = Some ''2''"
  by code_simp

section \<open>Workspace isolation: the memory store\<close>




section \<open>Workspace isolation: the file store\<close>















text \<open>What an operation on workspace \<open>a\<close> writes to the vault file holds \<open>b\<close> as it was.\<close>

lemma file_writes_set_workspace [simp]:
  "file_writes (set_workspace st w ws) = file_writes st"
  by (simp add: set_workspace_def)








section \<open>Workspace isolation\<close>



end
